theory Spec2Isabelle
  imports Complex_Main
begin

section \<open>Python strings\<close>

text \<open>
  A Python \<open>str\<close> is modelled as a \<open>string\<close> whose characters are the code points below
  256. On that range \<open>str.lower\<close> changes exactly the letters A..Z and the Latin-1 capitals
  192..222 (without the multiplication sign 215), each by adding 32, and the characters that
  \<open>str.strip()\<close> and \<open>str.split()\<close> treat as white space are the twelve listed in
  \<open>is_space\<close>.
\<close>

definition is_space :: "char \<Rightarrow> bool" where
  "is_space c = ((of_char c :: nat) \<in> {9, 10, 11, 12, 13, 28, 29, 30, 31, 32, 133, 160})"

definition lower_char :: "char \<Rightarrow> char" where
  "lower_char c =
     (let n = (of_char c :: nat)
      in if (65 \<le> n \<and> n \<le> 90) \<or> (192 \<le> n \<and> n \<le> 222 \<and> n \<noteq> 215)
         then char_of (n + 32) else c)"

definition lower :: "string \<Rightarrow> string" where
  "lower s = map lower_char s"

text \<open>\<open>s.strip(chars)\<close> and \<open>s.strip()\<close>: drop the matching characters at both ends.\<close>

definition strip_where :: "(char \<Rightarrow> bool) \<Rightarrow> string \<Rightarrow> string" where
  "strip_where P s = rev (dropWhile P (rev (dropWhile P s)))"

definition strip :: "string \<Rightarrow> string" where
  "strip s = strip_where is_space s"

definition strip_chars :: "string \<Rightarrow> string \<Rightarrow> string" where
  "strip_chars chars s = strip_where (\<lambda>c. c \<in> set chars) s"

text \<open>\<open>s.split()\<close>: the maximal runs of characters that are not white space.\<close>

fun split_from :: "string \<Rightarrow> string \<Rightarrow> string list" where
  "split_from cur [] = (if cur = [] then [] else [cur])"
| "split_from cur (c # cs) =
     (if is_space c then (if cur = [] then split_from [] cs else cur # split_from [] cs)
      else split_from (cur @ [c]) cs)"

definition split :: "string \<Rightarrow> string list" where
  "split s = split_from [] s"

text \<open>\<open>s.startswith(p)\<close> and the substring test \<open>sub in s\<close>.\<close>

definition startswith :: "string \<Rightarrow> string \<Rightarrow> bool" where
  "startswith s p = (take (length p) s = p)"

fun contains :: "string \<Rightarrow> string \<Rightarrow> bool" where
  "contains [] sub = (sub = [])"
| "contains (c # cs) sub = (startswith (c # cs) sub \<or> contains cs sub)"

text \<open>\<open>sep.join(parts)\<close>.\<close>

fun join :: "string \<Rightarrow> string list \<Rightarrow> string" where
  "join sep [] = []"
| "join sep [x] = x"
| "join sep (x # y # ys) = x @ sep @ join sep (y # ys)"

text \<open>The slice \<open>xs[-n:]\<close> for a positive \<open>n\<close>: the last \<open>n\<close> elements, all of a shorter list.\<close>

definition last_n :: "nat \<Rightarrow> 'a list \<Rightarrow> 'a list" where
  "last_n n xs = drop (length xs - n) xs"

text \<open>The decimal numeral that an f-string prints for a length.\<close>

function str_of_nat :: "nat \<Rightarrow> string" where
  "str_of_nat n =
     (if n < 10 then [char_of (48 + n)]
      else str_of_nat (n div 10) @ [char_of (48 + n mod 10)])"
  by pat_completeness auto
termination
  by (relation "measure id") auto

declare str_of_nat.simps [simp del]

text \<open>The exceptions of Python that the modelled code can raise on its own.\<close>

datatype py_error = IndexError | KeyError | TypeError | AttributeError | OverflowError

section \<open>Messages\<close>

text \<open>
  \<open>config/models.py\<close>: a message has a role and a content that is either a string or a
  list of parts. A part is a dictionary; the code reads its entries \<open>type\<close> and \<open>text\<close>
  only, so a part is the pair of these two entries, each absent or a string.
\<close>

record part =
  part_type :: "string option"
  part_text :: "string option"

datatype content = Text string | Parts "part list"

record message =
  role :: string
  content :: content

text \<open>\<open>_get_text_from_content\<close>, the same in the router, the classifier and the state store.\<close>

definition get_text_from_content :: "content \<Rightarrow> string" where
  "get_text_from_content c =
     (case c of
        Text s \<Rightarrow> s
      | Parts ps \<Rightarrow>
          join '' ''
            (map (\<lambda>p. case part_text p of None \<Rightarrow> [] | Some t \<Rightarrow> t)
               (filter (\<lambda>p. part_type p = Some ''text'') ps)))"

section \<open>Conversation state store\<close>

text \<open>
  \<open>services/conversation_state.py\<close>. Python integers are unbounded, so the counters are
  \<open>int\<close>. The clock \<open>time.time()\<close> is an input of every operation (one reading per
  operation), taken in the reals.
\<close>

record ConversationState =
  conversation_id :: string
  active_model_tier :: string
  last_model_used :: "string option"
  has_vision_content :: bool
  vision_sticky_count :: int
  heavy_context_active :: bool
  heavy_context_sticky_count :: int
  message_count_since_upgrade :: int
  last_activity :: real
  topic_keywords :: "string list"

text \<open>The dataclass constructor with its defaults; \<open>__post_init__\<close> stamps the time.\<close>

definition new_state :: "real \<Rightarrow> string \<Rightarrow> string list \<Rightarrow> ConversationState" where
  "new_state now cid kws =
     \<lparr> conversation_id = cid, active_model_tier = ''simple'', last_model_used = None,
       has_vision_content = False, vision_sticky_count = 0,
       heavy_context_active = False, heavy_context_sticky_count = 0,
       message_count_since_upgrade = 0, last_activity = now, topic_keywords = kws \<rparr>"

text \<open>\<open>update_state_after_routing\<close>: the assignments of the method, in its order.\<close>

definition update_vision :: "bool \<Rightarrow> ConversationState \<Rightarrow> ConversationState" where
  "update_vision had_vision s =
     (if had_vision then
        s\<lparr>has_vision_content := True, vision_sticky_count := 3, active_model_tier := ''hard''\<rparr>
      else if vision_sticky_count s > 0 then
        (let s' = s\<lparr>vision_sticky_count := vision_sticky_count s - 1\<rparr>
         in if vision_sticky_count s' = 0 then s'\<lparr>has_vision_content := False\<rparr> else s')
      else s)"

definition update_heavy :: "bool \<Rightarrow> ConversationState \<Rightarrow> ConversationState" where
  "update_heavy had_heavy_context s =
     (if had_heavy_context then
        s\<lparr>heavy_context_active := True, heavy_context_sticky_count := 2,
          active_model_tier := ''hard''\<rparr>
      else if heavy_context_sticky_count s > 0 then
        (let s' = s\<lparr>heavy_context_sticky_count := heavy_context_sticky_count s - 1\<rparr>
         in if heavy_context_sticky_count s' = 0 then s'\<lparr>heavy_context_active := False\<rparr>
            else s')
      else s)"

definition update_tier :: "string \<Rightarrow> ConversationState \<Rightarrow> ConversationState" where
  "update_tier model_tier s =
     (if model_tier \<noteq> active_model_tier s then
        s\<lparr>message_count_since_upgrade := 0, active_model_tier := model_tier\<rparr>
      else s\<lparr>message_count_since_upgrade := message_count_since_upgrade s + 1\<rparr>)"

definition update_state_after_routing ::
  "real \<Rightarrow> ConversationState \<Rightarrow> string \<Rightarrow> string \<Rightarrow> bool \<Rightarrow> bool \<Rightarrow> ConversationState" where
  "update_state_after_routing now state selected_model model_tier had_vision had_heavy_context =
     update_tier model_tier
       (update_heavy had_heavy_context
          (update_vision had_vision
             (state\<lparr>last_model_used := Some selected_model, last_activity := now\<rparr>)))"

text \<open>One call of \<open>update_state_after_routing\<close> on a state: the clock and the four arguments.\<close>

record routing_update =
  at_time :: real
  selected_model :: string
  model_tier :: string
  had_vision :: bool
  had_heavy_context :: bool

definition apply_update :: "ConversationState \<Rightarrow> routing_update \<Rightarrow> ConversationState" where
  "apply_update s u =
     update_state_after_routing (at_time u) s (selected_model u) (model_tier u)
       (had_vision u) (had_heavy_context u)"

text \<open>The pairing of each sticky counter with its flag.\<close>

definition sticky_paired :: "ConversationState \<Rightarrow> bool" where
  "sticky_paired s =
     (0 \<le> vision_sticky_count s \<and> 0 \<le> heavy_context_sticky_count s \<and>
      (vision_sticky_count s = 0 \<longrightarrow> \<not> has_vision_content s) \<and>
      (heavy_context_sticky_count s = 0 \<longrightarrow> \<not> heavy_context_active s))"

text \<open>
  \<open>_generate_conversation_id\<close>. \<open>hashlib.md5(s.encode()).hexdigest()\<close> is a library
  function, taken as the parameter \<open>md5_hexdigest\<close>.
\<close>

definition generate_conversation_id :: "(string \<Rightarrow> string) \<Rightarrow> message list \<Rightarrow> string" where
  "generate_conversation_id md5_hexdigest messages =
     (case messages of
        [] \<Rightarrow> ''empty_conversation''
      | m # _ \<Rightarrow>
          (let first_message_content = get_text_from_content (content m);
               conversation_signature =
                 take 200 first_message_content @ ''_'' @ str_of_nat (length messages)
           in take 16 (md5_hexdigest conversation_signature)))"

text \<open>\<open>_extract_topic_keywords\<close>.\<close>

definition stop_words :: "string list" where
  "stop_words =
     [''the'', ''a'', ''an'', ''and'', ''or'', ''but'', ''in'', ''on'', ''at'', ''to'', ''for'',
      ''of'', ''with'', ''by'', ''is'', ''are'', ''was'', ''were'', ''be'', ''been'', ''have'',
      ''has'', ''had'', ''do'', ''does'', ''did'', ''will'', ''would'', ''could'', ''should'',
      ''can'', ''may'', ''might'', ''i'', ''you'', ''he'', ''she'', ''it'', ''we'', ''they'',
      ''this'', ''that'', ''these'', ''those'']"

definition keyword_punctuation :: string where
  "keyword_punctuation =
     [CHR ''.'', CHR '','', CHR ''!'', CHR ''?'', CHR '';'', CHR '':'', CHR ''('', CHR '')'',
      CHR ''['', CHR '']'', CHR ''{'', CHR ''}'', CHR 0x22, CHR 0x27]"

definition keywords_of_text :: "string \<Rightarrow> string list" where
  "keywords_of_text text_content =
     (let words = map (strip_chars keyword_punctuation) (split text_content);
          keywords = filter (\<lambda>word. length word > 3 \<and> word \<notin> set stop_words) words
      in take 10 keywords)"

definition extract_topic_keywords :: "message list \<Rightarrow> string list" where
  "extract_topic_keywords messages =
     (if messages = [] then []
      else
        (let recent_messages = last_n 3 messages;
             text_content =
               lower (join '' ''
                 (map (\<lambda>msg. get_text_from_content (content msg))
                    (filter (\<lambda>msg. role msg = ''user'') recent_messages)))
         in keywords_of_text text_content))"

text \<open>
  \<open>_detect_topic_change\<close>. \<open>messages[-1]\<close> raises \<open>IndexError\<close> on an empty list. The
  quotient \<open>overlap / total_unique\<close> and the bound \<open>0.3\<close> are floating-point numbers in
  the source; they are compared here as exact fractions. The two comparisons agree for
  every keyword list that fits in memory: a fraction \<open>a / b\<close> other than \<open>3 / 10\<close> differs
  from it by at least \<open>1 / (10 * b)\<close>, far more than the rounding error of a double, and
  \<open>3 / 10\<close> itself rounds to the literal \<open>0.3\<close>.
\<close>

definition topic_change_indicators :: "string list" where
  "topic_change_indicators =
     [''new topic'', ''different question'', ''now let'' @ [CHR 0x27] @ ''s'', ''switching to'',
      ''change subject'', ''moving on'', ''next question'', ''unrelated'',
      ''completely different'', ''new request'', ''forget about'', ''ignore that'']"

definition keyword_drift :: "string list \<Rightarrow> string list \<Rightarrow> bool" where
  "keyword_drift current_keywords stored_keywords =
     (if stored_keywords \<noteq> [] \<and> current_keywords \<noteq> [] then
        (let overlap = card (set current_keywords \<inter> set stored_keywords);
             total_unique = card (set current_keywords \<union> set stored_keywords)
         in if total_unique > 0 then (real overlap / real total_unique < 3 / 10) else False)
      else False)"

definition detect_topic_change :: "message list \<Rightarrow> ConversationState \<Rightarrow> py_error + bool" where
  "detect_topic_change messages current_state =
     (if messages = [] then Inl IndexError
      else
        (let last_message_content = lower (get_text_from_content (content (last messages)))
         in if list_ex (\<lambda>indicator. contains last_message_content indicator)
                 topic_change_indicators
            then Inr True
            else Inr (keyword_drift (extract_topic_keywords messages)
                        (topic_keywords current_state))))"

text \<open>
  The manager. Its dictionary \<open>states\<close> keeps insertion order (which \<open>sorted\<close> sees when
  two conversations have the same \<open>last_activity\<close>), so it is an association list; it maps
  a conversation id to a reference into \<open>objects\<close>, the \<open>ConversationState\<close> objects
  allocated so far. A caller keeps the reference that \<open>get_or_create_state\<close> returned and
  hands it to \<open>update_state_after_routing\<close>, also after the entry has been evicted.
\<close>

record ConversationStateManager =
  states :: "(string \<times> nat) list"
  objects :: "ConversationState list"
  max_conversations :: int
  cleanup_after_seconds :: real
  last_cleanup :: real

text \<open>\<open>__init__\<close>, and the global instance made with the default arguments.\<close>

definition init_manager :: "real \<Rightarrow> int \<Rightarrow> int \<Rightarrow> ConversationStateManager" where
  "init_manager now max_convs cleanup_after_hours =
     \<lparr> states = [], objects = [], max_conversations = max_convs,
       cleanup_after_seconds = real_of_int (cleanup_after_hours * 3600), last_cleanup = now \<rparr>"

definition conversation_state_manager :: "real \<Rightarrow> ConversationStateManager" where
  "conversation_state_manager now = init_manager now 1000 24"

text \<open>\<open>_cleanup_old_conversations\<close>; \<open>sorted\<close> is stable, as \<open>sort_key\<close> is.\<close>

definition cleanup_old_conversations ::
  "real \<Rightarrow> ConversationStateManager \<Rightarrow> ConversationStateManager" where
  "cleanup_old_conversations now m =
     (if now - last_cleanup m < 3600 then m
      else
        (let activity = (\<lambda>(conv_id, ref). last_activity (objects m ! ref));
             kept = filter (\<lambda>e. \<not> (now - activity e > cleanup_after_seconds m)) (states m);
             kept' =
               (if int (length kept) > max_conversations m then
                  (let sorted_conversations = sort_key activity kept;
                       excess_count = int (length kept) - max_conversations m;
                       evicted = map fst (take (nat excess_count) sorted_conversations)
                   in filter (\<lambda>e. fst e \<notin> set evicted) kept)
                else kept)
         in m\<lparr>states := kept', last_cleanup := now\<rparr>))"

text \<open>
  \<open>get_or_create_state\<close> returns the reference of the state, or the exception raised, and
  the manager as the call left it (the assignments made before an exception stay).
\<close>

definition reset_sticky :: "ConversationState \<Rightarrow> ConversationState" where
  "reset_sticky state =
     state\<lparr>vision_sticky_count := 0, heavy_context_sticky_count := 0,
       message_count_since_upgrade := 0, active_model_tier := ''simple''\<rparr>"

definition get_or_create_state ::
  "(string \<Rightarrow> string) \<Rightarrow> real \<Rightarrow> message list \<Rightarrow> ConversationStateManager
     \<Rightarrow> (py_error + nat) \<times> ConversationStateManager" where
  "get_or_create_state md5_hexdigest now messages m0 =
     (let m = cleanup_old_conversations now m0;
          cid = generate_conversation_id md5_hexdigest messages
      in case map_of (states m) cid of
           Some ref \<Rightarrow>
             (let state = (objects m ! ref)\<lparr>last_activity := now\<rparr>;
                  m1 = m\<lparr>objects := (objects m)[ref := state]\<rparr>
              in case detect_topic_change messages state of
                   Inl e \<Rightarrow> (Inl e, m1)
                 | Inr drift \<Rightarrow>
                     (let state1 = (if drift then reset_sticky state else state);
                          state2 = state1\<lparr>topic_keywords := extract_topic_keywords messages\<rparr>
                      in (Inr ref, m1\<lparr>objects := (objects m1)[ref := state2]\<rparr>)))
         | None \<Rightarrow>
             (let state = new_state now cid (extract_topic_keywords messages);
                  ref = length (objects m);
                  state2 = state\<lparr>topic_keywords := extract_topic_keywords messages\<rparr>
              in (Inr ref, m\<lparr>states := states m @ [(cid, ref)],
                              objects := objects m @ [state2]\<rparr>)))"


definition should_stick_to_vision_model :: "ConversationState \<Rightarrow> bool" where
  "should_stick_to_vision_model state = (has_vision_content state \<and> vision_sticky_count state > 0)"

definition should_stick_to_heavy_model :: "ConversationState \<Rightarrow> bool" where
  "should_stick_to_heavy_model state =
     ((heavy_context_active state \<and> heavy_context_sticky_count state > 0) \<or>
      should_stick_to_vision_model state)"








text \<open>
  The keyword extraction as the specification words it, for comparison with
  \<open>extract_topic_keywords\<close>: the keywords come "from the last 3 user turns", that is from
  the three most recent messages whose role is \<open>user\<close>. Everything else is as in the source.
  \<open>spec_topic_drift\<close> is the drift rule of the specification over these keywords.
\<close>

definition spec_topic_keywords :: "message list \<Rightarrow> string list" where
  "spec_topic_keywords messages =
     keywords_of_text
       (lower (join '' ''
          (map (\<lambda>msg. get_text_from_content (content msg))
             (last_n 3 (filter (\<lambda>msg. role msg = ''user'') messages)))))"

definition spec_topic_drift :: "message list \<Rightarrow> ConversationState \<Rightarrow> bool" where
  "spec_topic_drift messages current_state =
     (list_ex (contains (lower (get_text_from_content (content (last messages)))))
        topic_change_indicators \<or>
      keyword_drift (spec_topic_keywords messages) (topic_keywords current_state))"

section \<open>Python values\<close>

text \<open>
  The values that cross the boundary untyped: the replies of the backends, parsed JSON and
  the parameters of a model. A dictionary has string keys; \<open>PObj\<close> is an object with
  attributes, as the SDK response classes are. A \<open>PFloat\<close> is a finite double, given by
  its value.
\<close>

datatype pyval =
    PNone
  | PBool bool
  | PInt int
  | PFloat real
  | PStr string
  | PList "pyval list"
  | PDict "(string \<times> pyval) list"
  | PObj "(string \<times> pyval) list"

text \<open>Sequencing of steps that can raise.\<close>

definition and_then :: "'e + 'a \<Rightarrow> ('a \<Rightarrow> 'e + 'b) \<Rightarrow> 'e + 'b" where
  "and_then r f = (case r of Inl e \<Rightarrow> Inl e | Inr x \<Rightarrow> f x)"

text \<open>Truth value, \<open>hasattr\<close>, attribute access, \<open>v[0]\<close>, \<open>v[key]\<close>, \<open>key in v\<close> for a
  dictionary, \<open>v.get(key, default)\<close>, \<open>v[:n]\<close> and \<open>len(v)\<close>.\<close>

definition py_truthy :: "pyval \<Rightarrow> bool" where
  "py_truthy v =
     (case v of
        PNone \<Rightarrow> False | PBool b \<Rightarrow> b | PInt i \<Rightarrow> i \<noteq> 0 | PFloat r \<Rightarrow> r \<noteq> 0
      | PStr s \<Rightarrow> s \<noteq> [] | PList xs \<Rightarrow> xs \<noteq> [] | PDict kvs \<Rightarrow> kvs \<noteq> []
      | PObj attrs \<Rightarrow> True)"

definition py_hasattr :: "pyval \<Rightarrow> string \<Rightarrow> bool" where
  "py_hasattr v name = (case v of PObj attrs \<Rightarrow> map_of attrs name \<noteq> None | _ \<Rightarrow> False)"

definition py_getattr :: "pyval \<Rightarrow> string \<Rightarrow> py_error + pyval" where
  "py_getattr v name =
     (case v of
        PObj attrs \<Rightarrow> (case map_of attrs name of None \<Rightarrow> Inl AttributeError | Some x \<Rightarrow> Inr x)
      | _ \<Rightarrow> Inl AttributeError)"

definition py_getattr_default :: "pyval \<Rightarrow> string \<Rightarrow> pyval \<Rightarrow> pyval" where
  "py_getattr_default v name d =
     (case v of
        PObj attrs \<Rightarrow> (case map_of attrs name of None \<Rightarrow> d | Some x \<Rightarrow> x)
      | _ \<Rightarrow> d)"

definition py_first :: "pyval \<Rightarrow> py_error + pyval" where
  "py_first v =
     (case v of
        PList xs \<Rightarrow> (case xs of [] \<Rightarrow> Inl IndexError | x # _ \<Rightarrow> Inr x)
      | PStr s \<Rightarrow> (case s of [] \<Rightarrow> Inl IndexError | c # _ \<Rightarrow> Inr (PStr [c]))
      | PDict kvs \<Rightarrow> Inl KeyError
      | _ \<Rightarrow> Inl TypeError)"

definition py_item :: "pyval \<Rightarrow> string \<Rightarrow> py_error + pyval" where
  "py_item v key =
     (case v of
        PDict kvs \<Rightarrow> (case map_of kvs key of None \<Rightarrow> Inl KeyError | Some x \<Rightarrow> Inr x)
      | _ \<Rightarrow> Inl TypeError)"

definition is_dict :: "pyval \<Rightarrow> bool" where
  "is_dict v = (case v of PDict kvs \<Rightarrow> True | _ \<Rightarrow> False)"

definition dict_has :: "pyval \<Rightarrow> string \<Rightarrow> bool" where
  "dict_has v key = (case v of PDict kvs \<Rightarrow> map_of kvs key \<noteq> None | _ \<Rightarrow> False)"

definition dict_get :: "pyval \<Rightarrow> string \<Rightarrow> pyval \<Rightarrow> pyval" where
  "dict_get v key d =
     (case v of PDict kvs \<Rightarrow> (case map_of kvs key of None \<Rightarrow> d | Some x \<Rightarrow> x) | _ \<Rightarrow> d)"

definition py_slice_to :: "nat \<Rightarrow> pyval \<Rightarrow> py_error + pyval" where
  "py_slice_to n v =
     (case v of
        PStr s \<Rightarrow> Inr (PStr (take n s))
      | PList xs \<Rightarrow> Inr (PList (take n xs))
      | _ \<Rightarrow> Inl TypeError)"

definition py_len :: "pyval \<Rightarrow> py_error + nat" where
  "py_len v =
     (case v of
        PStr s \<Rightarrow> Inr (length s)
      | PList xs \<Rightarrow> Inr (length xs)
      | PDict kvs \<Rightarrow> Inr (length kvs)
      | _ \<Rightarrow> Inl TypeError)"

text \<open>
  \<open>a + b\<close>: integers add exactly (a truth value counts as 0 or 1), strings and lists
  concatenate, anything else but numbers raises \<open>TypeError\<close>. When a double is among two
  numbers, the sum is a rounded double or an \<open>OverflowError\<close>: floating-point addition
  is not computed here, it is the parameter \<open>float_add\<close>.
\<close>

definition py_number :: "pyval \<Rightarrow> (int + real) option" where
  "py_number v =
     (case v of
        PBool b \<Rightarrow> Some (Inl (if b then 1 else 0))
      | PInt i \<Rightarrow> Some (Inl i)
      | PFloat r \<Rightarrow> Some (Inr r)
      | _ \<Rightarrow> None)"

definition py_add ::
  "(pyval \<Rightarrow> pyval \<Rightarrow> py_error + pyval) \<Rightarrow> pyval \<Rightarrow> pyval \<Rightarrow> py_error + pyval" where
  "py_add float_add a b =
     (case (py_number a, py_number b) of
        (Some (Inl i), Some (Inl j)) \<Rightarrow> Inr (PInt (i + j))
      | (Some x, Some y) \<Rightarrow> float_add a b
      | _ \<Rightarrow>
          (case (a, b) of
             (PStr s, PStr t) \<Rightarrow> Inr (PStr (s @ t))
           | (PList xs, PList ys) \<Rightarrow> Inr (PList (xs @ ys))
           | _ \<Rightarrow> Inl TypeError))"

section \<open>Settings and the model registry\<close>

text \<open>
  \<open>config/settings.py\<close>: the routing names, the threshold, the log level and the model
  table, as they stand after \<open>settings.reload_if_changed()\<close>. An entry of the model table
  is a dictionary of which \<open>get_llm_client_and_model_details\<close> reads six keys.
\<close>

record model_details =
  provider :: "string option"
  model_id :: "string option"
  model_type :: "string option"
  parameters :: "(string \<times> pyval) list option"
  system_prompt :: "string option"
  system_prompt_file :: "string option"

record settings =
  classifier_model :: string
  simple_no_research_model :: string
  simple_research_model :: string
  hard_no_research_model :: string
  hard_research_model :: string
  escalation_model :: string
  fallback_model :: string
  token_usage_threshold :: int
  log_level :: string
  model_configs :: "(string \<times> model_details) list"

text \<open>
  The provider clients. \<open>clients/ollama_client.py\<close> does not compile (its line 2 reads
  \<open>from ollama import Client as OllamaClient as OllamaSDK\<close>), so importing it raises
  \<open>SyntaxError\<close> and no Ollama client is ever made. \<open>clients/gemini_image_client.py\<close> is not
  among the sources: whether its import succeeds, and the \<open>provider_name\<close> of its client,
  are parameters.
\<close>

datatype client =
    OpenAIClient | GeminiClient | AnthropicClient | PerplexityClient | GeminiImageClient

text \<open>One call of \<open>generate_response\<close>: the client and the five arguments.\<close>

record generate_call =
  call_client :: client
  call_model_id :: string
  call_messages :: "message list"
  call_temperature :: real
  call_api_parameters :: "(string \<times> pyval) list"
  call_system_prompt :: string

text \<open>
  What the code reaches outside the repository: whether a client initializes (API key set
  and SDK constructor succeeding), the prompt files under the configuration directory, the
  \<open>tiktoken\<close> encoding (absent when \<open>get_encoding\<close> raises; else the number of tokens of a
  text), \<open>json.loads\<close> (\<open>None\<close> for \<open>JSONDecodeError\<close>), the backends (the reply to a call
  or the message of the exception it raises; the answer may depend on how many interactions
  came before), the identifier and the clock used for a normalized reply, and the addition
  of two numbers of which one is a double.
\<close>

record environment =
  client_initializes :: "client \<Rightarrow> bool"
  prompt_files :: "string \<Rightarrow> string option"
  tiktoken_encoding :: "(string \<Rightarrow> nat) option"
  json_loads :: "string \<Rightarrow> pyval option"
  backend :: "nat \<Rightarrow> generate_call \<Rightarrow> string + pyval"
  gemini_image_provider_name :: "string option"
  uuid4 :: string
  clock :: int
  float_add :: "pyval \<Rightarrow> pyval \<Rightarrow> py_error + pyval"

datatype py_exception = SyntaxError | ImportError | Raised py_error

definition provider_name :: "environment \<Rightarrow> client \<Rightarrow> string" where
  "provider_name env c =
     (case c of
        OpenAIClient \<Rightarrow> ''openai''
      | GeminiClient \<Rightarrow> ''gemini''
      | AnthropicClient \<Rightarrow> ''anthropic''
      | PerplexityClient \<Rightarrow> ''perplexity''
      | GeminiImageClient \<Rightarrow>
          (case gemini_image_provider_name env of None \<Rightarrow> ''unknown'' | Some n \<Rightarrow> n))"

text \<open>\<open>settings.read_system_prompt_from_file\<close>: the stripped content, or \<open>None\<close>.\<close>

definition read_system_prompt_from_file :: "environment \<Rightarrow> string \<Rightarrow> string option" where
  "read_system_prompt_from_file env path = map_option strip (prompt_files env path)"

text \<open>
  The import and construction of the client class of a provider, in the order of the
  \<open>if\<close>/\<open>elif\<close> chain; an unsupported provider gives no client. The SDK packages that the
  client modules import are taken to be installed.
\<close>

definition make_client :: "environment \<Rightarrow> string \<Rightarrow> py_exception + client option" where
  "make_client env prov =
     (if prov = ''openai'' then Inr (Some OpenAIClient)
      else if prov = ''ollama'' then Inl SyntaxError
      else if prov = ''gemini'' then Inr (Some GeminiClient)
      else if prov = ''anthropic'' then Inr (Some AnthropicClient)
      else if prov = ''perplexity'' then Inr (Some PerplexityClient)
      else if prov = ''gemini_image'' then
        (case gemini_image_provider_name env of
           None \<Rightarrow> Inl ImportError
         | Some n \<Rightarrow> Inr (Some GeminiImageClient))
      else Inr None)"

text \<open>
  \<open>get_llm_client_and_model_details\<close>. The five \<open>None\<close>s it returns on a miss are the
  result \<open>None\<close>; otherwise all five components are present.
\<close>

record resolution =
  res_client :: client
  res_model_id :: string
  res_model_type :: string
  res_api_parameters :: "(string \<times> pyval) list"
  res_system_prompt :: string

definition nonempty :: "string option \<Rightarrow> bool" where
  "nonempty s = (case s of None \<Rightarrow> False | Some t \<Rightarrow> t \<noteq> [])"

definition get_llm_client_and_model_details ::
  "settings \<Rightarrow> environment \<Rightarrow> string \<Rightarrow> py_exception + resolution option" where
  "get_llm_client_and_model_details cfg env logical_model_name =
     (case map_of (model_configs cfg) logical_model_name of
        None \<Rightarrow> Inr None
      | Some details \<Rightarrow>
          (let file_content =
                 (if nonempty (system_prompt_file details)
                  then read_system_prompt_from_file env (the (system_prompt_file details))
                  else None);
               system_prompt_content =
                 (if nonempty file_content then file_content else system_prompt details);
               system_prompt_content =
                 (if nonempty system_prompt_content then the system_prompt_content
                  else ''You are a helpful AI assistant.'')
           in if \<not> nonempty (provider details) \<or> \<not> nonempty (model_id details) then Inr None
              else
                (case make_client env (the (provider details)) of
                   Inl e \<Rightarrow> Inl e
                 | Inr None \<Rightarrow> Inr None
                 | Inr (Some c) \<Rightarrow>
                     if \<not> client_initializes env c then Inr None
                     else
                       Inr (Some \<lparr> res_client = c,
                                   res_model_id = the (model_id details),
                                   res_model_type =
                                     (case model_type details of None \<Rightarrow> ''chat'' | Some t \<Rightarrow> t),
                                   res_api_parameters =
                                     (case parameters details of None \<Rightarrow> [] | Some p \<Rightarrow> p),
                                   res_system_prompt = system_prompt_content \<rparr>))))"

text \<open>
  The interactions of one request with its collaborators, in the order they happen: a
  registry resolution of a logical name, or a \<open>generate_response\<close> call on a client.
\<close>

datatype event = Resolve string | Generate generate_call

section \<open>Classification engine\<close>

text \<open>\<open>services/classifier.py\<close>. The messages are the dictionaries of \<open>msg.dict()\<close>.\<close>

definition title_patterns :: "string list" where
  "title_patterns =
     [''generate a title'', ''create a title'', ''title for this conversation'',
      ''chat_history'', ''</chat_history>'', ''conversation title'',
      ''summarize this conversation into a title'']"

definition is_title_generation_request :: "message list \<Rightarrow> bool" where
  "is_title_generation_request messages =
     (if messages = [] then False
      else
        (let last_message_content = lower (get_text_from_content (content (last messages)))
         in length last_message_content < 200 \<and>
            list_ex (\<lambda>pattern. contains last_message_content pattern) title_patterns))"

definition is_escalation_request :: "string \<Rightarrow> bool" where
  "is_escalation_request user_prompt =
     (lower (strip user_prompt) \<in> set [''escalate'', ''escalate this'', ''escalate me''])"

definition imperative_triggers :: "string list" where
  "imperative_triggers =
     [''research this'', ''research that'', ''research it'', ''research about'',
      ''research the'', ''research how'', ''research what'', ''research when'',
      ''research where'', ''research why'', ''research whether'',
      ''look this up'', ''look that up'', ''look it up'', ''look up'',
      ''search for this'', ''search for that'', ''search for the'',
      ''find information about'', ''find info about'', ''find out about'',
      ''investigate this'', ''investigate that'', ''investigate the'',
      ''dig deeper into'', ''get more info on'', ''get information on'']"

definition polite_triggers :: "string list" where
  "polite_triggers =
     [''can you research'', ''could you research'', ''would you research'',
      ''please research'', ''can you look up'', ''could you look up'',
      ''can you find'', ''could you find'', ''can you search'',
      ''could you search'', ''please look up'', ''please find'']"

definition question_triggers :: "string list" where
  "question_triggers =
     [''what's the latest on'', ''what is the latest on'',
      ''what's the current'', ''what is the current'',
      ''what are the recent'', ''what are recent'',
      ''any recent'', ''any latest'', ''any new'',
      ''current information about'', ''latest news on'', ''recent developments'']"

definition is_research_request :: "string \<Rightarrow> bool" where
  "is_research_request user_prompt =
     (let cleaned_prompt = lower (strip user_prompt)
      in if list_ex (\<lambda>trigger. startswith cleaned_prompt trigger)
              (imperative_triggers @ polite_triggers)
         then True
         else if length cleaned_prompt < 100 \<and>
                 list_ex (\<lambda>trigger. contains cleaned_prompt trigger) question_triggers
         then True
         else
           (let words = split cleaned_prompt
            in length words \<ge> 2 \<and> hd words = ''research'' \<and> length words \<le> 10))"

text \<open>\<open>_normalize_category\<close>. \<open>valid_cat in category\<close> is the substring test on a string,
  membership in a list and the key test on a dictionary; on anything else it raises.\<close>

definition valid_categories :: "string list" where
  "valid_categories =
     [''simple_no_research'', ''simple_research'', ''hard_no_research'', ''hard_research'']"

definition py_contains :: "pyval \<Rightarrow> string \<Rightarrow> py_error + bool" where
  "py_contains v x =
     (case v of
        PStr s \<Rightarrow> Inr (contains s x)
      | PList xs \<Rightarrow> Inr (PStr x \<in> set xs)
      | PDict kvs \<Rightarrow> Inr (map_of kvs x \<noteq> None)
      | _ \<Rightarrow> Inl TypeError)"

fun first_valid_in :: "string list \<Rightarrow> pyval \<Rightarrow> py_error + string" where
  "first_valid_in [] category = Inr ''simple_no_research''"
| "first_valid_in (valid_cat # rest) category =
     (case py_contains category valid_cat of
        Inl e \<Rightarrow> Inl e
      | Inr found \<Rightarrow> if found then Inr valid_cat else first_valid_in rest category)"

definition normalize_category :: "environment \<Rightarrow> string \<Rightarrow> py_error + string" where
  "normalize_category env category0 =
     (let category = lower (strip category0)
      in if startswith category ''{'' then
           (case json_loads env category of
              None \<Rightarrow> Inr ''simple_no_research''
            | Some data \<Rightarrow>
                if is_dict data
                then first_valid_in valid_categories
                       (dict_get data ''category'' (PStr ''simple_no_research''))
                else Inl AttributeError)
         else first_valid_in valid_categories (PStr category))"

text \<open>The text that \<open>classify_message\<close> reads off the reply of the classifier model.\<close>

definition reply_category :: "pyval \<Rightarrow> py_error + string" where
  "reply_category response =
     (if py_hasattr response ''choices'' \<and>
         py_truthy (py_getattr_default response ''choices'' PNone)
      then
        and_then (py_getattr response ''choices'') (\<lambda>choices.
        and_then (py_first choices) (\<lambda>choice.
        and_then (py_getattr choice ''message'') (\<lambda>msg.
        and_then (py_getattr msg ''content'') (\<lambda>c.
          case c of PStr s \<Rightarrow> Inr (lower (strip s)) | _ \<Rightarrow> Inl AttributeError))))
      else Inr ''simple_no_research'')"

definition classifier_instruction :: string where
  "classifier_instruction =
     ''Classify the user's request based on two dimensions: 'SIMPLE' or 'HARD' complexity, '' @
     ''and 'RESEARCH' or 'NO_RESEARCH' for information retrieval. '' @
     ''Combine these with an underscore, e.g., 'SIMPLE_RESEARCH'. '' @
     ''Provide ONLY this combined classification. Default to 'SIMPLE_NO_RESEARCH'.''"

text \<open>
  \<open>classify_message\<close>, called when \<open>n\<close> interactions of the request have happened. The
  registry lookup stands before the \<open>try\<close>: what it raises leaves the function. Everything
  raised inside the \<open>try\<close> gives the default label.
\<close>

definition classify_message ::
  "settings \<Rightarrow> environment \<Rightarrow> nat \<Rightarrow> message list
     \<Rightarrow> (py_exception + string) \<times> event list" where
  "classify_message cfg env n messages =
     (if messages = [] then (Inr ''simple_no_research'', [])
      else
        (let user_content = get_text_from_content (content (last messages))
         in case get_llm_client_and_model_details cfg env (classifier_model cfg) of
              Inl e \<Rightarrow> (Inl e, [Resolve (classifier_model cfg)])
            | Inr None \<Rightarrow> (Inr ''simple_no_research'', [Resolve (classifier_model cfg)])
            | Inr (Some r) \<Rightarrow>
                (let prompt = (if res_system_prompt r = [] then classifier_instruction
                               else res_system_prompt r);
                     call = \<lparr> call_client = res_client r, call_model_id = res_model_id r,
                              call_messages = [\<lparr>role = ''user'', content = Text user_content\<rparr>],
                              call_temperature = 0,
                              call_api_parameters = [(''max_tokens'', PInt 25)],
                              call_system_prompt = prompt \<rparr>;
                     label =
                       (case backend env (n + 1) call of
                          Inl msg \<Rightarrow> ''simple_no_research''
                        | Inr response \<Rightarrow>
                            (case and_then (reply_category response) (normalize_category env) of
                               Inl e \<Rightarrow> ''simple_no_research''
                             | Inr category \<Rightarrow> category))
                 in (Inr label, [Resolve (classifier_model cfg), Generate call]))))"

section \<open>Routing decision engine\<close>

text \<open>\<open>services/router.py\<close>.\<close>

record ChatRequest =
  req_messages :: "message list"
  req_temperature :: "real option"

definition model_mappings :: "settings \<Rightarrow> (string \<times> string) list" where
  "model_mappings cfg =
     [(''simple_no_research'', simple_no_research_model cfg),
      (''simple_research'', simple_research_model cfg),
      (''hard_no_research'', hard_no_research_model cfg),
      (''hard_research'', hard_research_model cfg)]"

definition detect_heavy_context :: "settings \<Rightarrow> environment \<Rightarrow> message list \<Rightarrow> bool" where
  "detect_heavy_context cfg env messages =
     (case tiktoken_encoding env of
        None \<Rightarrow>
          (let total_length =
                 sum_list (map (\<lambda>msg. length (get_text_from_content (content msg))) messages)
           in int total_length > token_usage_threshold cfg * 4)
      | Some encode \<Rightarrow>
          (let num_tokens =
                 sum_list
                   (map (\<lambda>msg. let text_content = get_text_from_content (content msg)
                               in if text_content \<noteq> [] then encode text_content else 0)
                      messages)
           in int num_tokens > token_usage_threshold cfg))"

definition has_image_in_current_message :: "message \<Rightarrow> bool" where
  "has_image_in_current_message msg =
     (case content msg of
        Parts ps \<Rightarrow> list_ex (\<lambda>p. part_type p = Some ''image_url'') ps
      | Text s \<Rightarrow> False)"

definition has_image_in_conversation :: "message list \<Rightarrow> bool" where
  "has_image_in_conversation messages = list_ex has_image_in_current_message messages"

definition image_reference_keywords :: "string list" where
  "image_reference_keywords =
     [''image'', ''picture'', ''photo'', ''screenshot'', ''device'', ''list'', ''show'',
      ''display'', ''read'', ''see'', ''view'', ''visible'', ''shown'', ''listed'', ''those'',
      ''these'', ''what's in'', ''what is in'', ''describe'', ''caption'', ''identify'',
      ''items'', ''objects'', ''contents'', ''details'', ''information'', ''from the image'',
      ''in the picture'', ''what you see'', ''analyze this'', ''tell me about'',
      ''third item'', ''first item'', ''second item'', ''last item'', ''bottom'', ''top'',
      ''left'', ''right'', ''corner'', ''center'', ''highlighted'', ''selected'',
      ''what's the'', ''which one'', ''how many'', ''count'', ''number of'']"

definition references_image_content :: "string \<Rightarrow> bool" where
  "references_image_content text =
     (let text_lower = lower text;
          matched_keywords = filter (\<lambda>kw. contains text_lower kw) image_reference_keywords
      in length matched_keywords > 0)"

definition should_use_vision_model :: "message list \<Rightarrow> bool" where
  "should_use_vision_model messages =
     (if messages = [] then False
      else
        (let last_message = last messages
         in if has_image_in_current_message last_message then True
            else if has_image_in_conversation messages then
              (let last_text = get_text_from_content (content last_message)
               in if references_image_content last_text then True
                  else if length (strip last_text) < 50 then True
                  else False)
            else False))"

definition determine_model_tier :: "string \<Rightarrow> bool \<Rightarrow> bool \<Rightarrow> string" where
  "determine_model_tier category needs_vision needs_heavy_context =
     (if needs_vision \<or> needs_heavy_context then ''hard''
      else if contains category ''hard'' then ''hard''
      else if contains category ''simple'' then ''simple''
      else ''simple'')"

text \<open>
  The selection of the target model and the tier: the \<open>if\<close>/\<open>elif\<close> chain of
  \<open>route_and_process\<close>. The decision records the branch taken; the last branch is the only
  one that calls the classifier.
\<close>

datatype reason =
    Vision | HeavyContext | Title | Escalation | Research | Classified string

record routing_decision =
  target_model :: string
  tier :: string
  why :: reason

definition select_target ::
  "settings \<Rightarrow> environment \<Rightarrow> message list
     \<Rightarrow> (py_exception + routing_decision) \<times> event list" where
  "select_target cfg env messages =
     (let user_prompt_text = get_text_from_content (content (last messages));
          needs_vision = should_use_vision_model messages;
          needs_heavy_context = detect_heavy_context cfg env messages
      in if needs_vision then
           (Inr \<lparr>target_model = hard_no_research_model cfg, tier = ''hard'', why = Vision\<rparr>, [])
         else if needs_heavy_context then
           (Inr \<lparr>target_model = hard_no_research_model cfg, tier = ''hard'',
                 why = HeavyContext\<rparr>, [])
         else if is_title_generation_request messages then
           (Inr \<lparr>target_model = simple_no_research_model cfg, tier = ''simple'',
                 why = Title\<rparr>, [])
         else if is_escalation_request user_prompt_text then
           (Inr \<lparr>target_model = escalation_model cfg, tier = ''escalation'',
                 why = Escalation\<rparr>, [])
         else if is_research_request user_prompt_text then
           (Inr \<lparr>target_model = ''Perplexity-Research'', tier = ''research'',
                 why = Research\<rparr>, [])
         else
           (case classify_message cfg env 0 messages of
              (Inl e, events) \<Rightarrow> (Inl e, events)
            | (Inr category, events) \<Rightarrow>
                (Inr \<lparr>target_model =
                        (case map_of (model_mappings cfg) category of
                           None \<Rightarrow> fallback_model cfg
                         | Some m \<Rightarrow> m),
                      tier = determine_model_tier category needs_vision needs_heavy_context,
                      why = Classified category\<rparr>,
                 events)))"

text \<open>How a request fails: an \<open>HTTPException\<close> with its status and detail, or another
  exception that leaves \<open>route_and_process\<close>. The detail of a failed generation is
  \<open>Failed to generate response:\<close> followed by the text of the exception, which is the
  message of the backend or an exception of the normalization.\<close>

datatype http_detail = Detail string | FailedToGenerate "string + py_error"

datatype failure = HTTPException nat http_detail | Uncaught py_exception

text \<open>Resolution of the target with the one retry on the fallback model.\<close>

definition resolve_with_fallback ::
  "settings \<Rightarrow> environment \<Rightarrow> string \<Rightarrow> (failure + string \<times> resolution) \<times> event list" where
  "resolve_with_fallback cfg env target =
     (case get_llm_client_and_model_details cfg env target of
        Inl e \<Rightarrow> (Inl (Uncaught e), [Resolve target])
      | Inr (Some r) \<Rightarrow> (Inr (target, r), [Resolve target])
      | Inr None \<Rightarrow>
          (case get_llm_client_and_model_details cfg env (fallback_model cfg) of
             Inl e \<Rightarrow> (Inl (Uncaught e), [Resolve target, Resolve (fallback_model cfg)])
           | Inr None \<Rightarrow>
               (Inl (HTTPException 500 (Detail ''No valid LLM client available'')),
                [Resolve target, Resolve (fallback_model cfg)])
           | Inr (Some r) \<Rightarrow>
               (Inr (fallback_model cfg, r), [Resolve target, Resolve (fallback_model cfg)])))"

text \<open>The double check: vision required and the provider is not \<open>gemini\<close>.\<close>

definition force_gemini ::
  "settings \<Rightarrow> environment \<Rightarrow> bool \<Rightarrow> string \<times> resolution
     \<Rightarrow> (failure + string \<times> resolution) \<times> event list" where
  "force_gemini cfg env needs_vision resolved =
     (if needs_vision \<and> provider_name env (res_client (snd resolved)) \<noteq> ''gemini'' then
        (case get_llm_client_and_model_details cfg env (escalation_model cfg) of
           Inl e \<Rightarrow> (Inl (Uncaught e), [Resolve (escalation_model cfg)])
         | Inr (Some r) \<Rightarrow>
             if provider_name env (res_client r) = ''gemini''
             then (Inr (escalation_model cfg, r), [Resolve (escalation_model cfg)])
             else (Inl (HTTPException 500 (Detail ''Cannot find Gemini model for vision task!'')),
                   [Resolve (escalation_model cfg)])
         | Inr None \<Rightarrow>
             (Inl (HTTPException 500 (Detail ''Cannot find Gemini model for vision task!'')),
              [Resolve (escalation_model cfg)]))
      else (Inr resolved, []))"

text \<open>
  The preview that \<open>route_and_process\<close> logs after the reply has arrived; it stands inside
  the \<open>try\<close> and only matters by what it can raise.
\<close>

definition log_response_preview :: "pyval \<Rightarrow> py_error + unit" where
  "log_response_preview response =
     (if py_hasattr response ''choices'' \<and>
         py_truthy (py_getattr_default response ''choices'' PNone)
      then
        and_then (py_getattr response ''choices'') (\<lambda>choices.
        and_then (py_first choices) (\<lambda>choice.
        and_then (py_getattr choice ''message'') (\<lambda>msg.
        and_then (py_getattr msg ''content'') (\<lambda>c.
        and_then (py_slice_to 100 c) (\<lambda>preview. Inr ())))))
      else if is_dict response \<and> dict_has response ''choices'' then
        and_then (py_item response ''choices'') (\<lambda>choices.
        and_then (py_first choices) (\<lambda>choice.
        and_then (py_item choice ''message'') (\<lambda>msg.
        and_then (py_item msg ''content'') (\<lambda>c.
        and_then (py_slice_to 100 c) (\<lambda>preview. Inr ())))))
      else Inr ())"

text \<open>\<open>_format_openai_response\<close>: first the content and the usage it reads off a reply that
  is neither an image batch nor an error.\<close>

definition zero_usage :: pyval where
  "zero_usage =
     PDict [(''prompt_tokens'', PInt 0), (''completion_tokens'', PInt 0),
            (''total_tokens'', PInt 0)]"

definition content_and_usage :: "environment \<Rightarrow> pyval \<Rightarrow> py_error + pyval \<times> pyval" where
  "content_and_usage env llm_response =
     (let content0 = PStr ''An error occurred or no content was generated.'';
          usage0 = zero_usage
      in if py_hasattr llm_response ''choices'' \<and>
            py_truthy (py_getattr_default llm_response ''choices'' PNone)
         then
           and_then (py_getattr llm_response ''choices'') (\<lambda>choices.
           and_then (py_first choices) (\<lambda>choice.
           and_then (py_getattr choice ''message'') (\<lambda>msg.
           and_then (py_getattr msg ''content'') (\<lambda>c.
             if py_hasattr llm_response ''usage'' then
               (let u = py_getattr_default llm_response ''usage'' PNone
                in Inr (c, PDict
                     [(''prompt_tokens'', py_getattr_default u ''prompt_tokens'' (PInt 0)),
                      (''completion_tokens'', py_getattr_default u ''completion_tokens'' (PInt 0)),
                      (''total_tokens'', py_getattr_default u ''total_tokens'' (PInt 0))]))
             else Inr (c, usage0)))))
         else if is_dict llm_response then
           (if dict_has llm_response ''choices'' then
              and_then (py_item llm_response ''choices'') (\<lambda>choices.
              and_then (py_first choices) (\<lambda>choice.
              and_then (py_item choice ''message'') (\<lambda>msg.
              and_then (py_item msg ''content'') (\<lambda>c.
                Inr (c, dict_get llm_response ''usage'' usage0)))))
            else if dict_has llm_response ''message'' then
              and_then (py_item llm_response ''message'') (\<lambda>msg.
              and_then (py_item msg ''content'') (\<lambda>c.
              and_then (py_add (float_add env) (dict_get llm_response ''prompt_eval_count'' (PInt 0))
                               (dict_get llm_response ''eval_count'' (PInt 0))) (\<lambda>total.
                Inr (c, PDict
                  [(''prompt_tokens'', dict_get llm_response ''prompt_eval_count'' (PInt 0)),
                   (''completion_tokens'', dict_get llm_response ''eval_count'' (PInt 0)),
                   (''total_tokens'', total)]))))
            else Inr (content0, usage0))
         else Inr (content0, usage0))"

text \<open>
  \<open>str.upper\<close> on the code points below 256, but for the three whose capital lies above
  255 (181, 223, 255), left unchanged here: the result is only compared with \<open>DEBUG\<close>,
  which none of their capitals can produce.
\<close>

definition upper_char :: "char \<Rightarrow> char" where
  "upper_char c =
     (let n = (of_char c :: nat)
      in if (97 \<le> n \<and> n \<le> 122) \<or> (224 \<le> n \<and> n \<le> 254 \<and> n \<noteq> 247)
         then char_of (n - 32) else c)"

definition upper :: "string \<Rightarrow> string" where
  "upper s = map upper_char s"

definition debug_prefix :: "settings \<Rightarrow> string \<Rightarrow> pyval \<Rightarrow> py_error + pyval" where
  "debug_prefix cfg model_name c =
     (if upper (log_level cfg) \<in> set [''DEBUG''] then
        (case c of
           PStr s \<Rightarrow>
             if \<not> startswith s (model_name @ '' - '') then Inr (PStr (model_name @ '' - '' @ s))
             else Inr c
         | _ \<Rightarrow> Inl AttributeError)
      else Inr c)"

definition format_openai_response ::
  "settings \<Rightarrow> environment \<Rightarrow> pyval \<Rightarrow> string \<Rightarrow> py_error + pyval" where
  "format_openai_response cfg env llm_response model_name =
     (if is_dict llm_response \<and> dict_has llm_response ''data'' \<and>
         dict_get llm_response ''object'' PNone = PStr ''list''
      then
        and_then (py_len (dict_get llm_response ''data'' PNone)) (\<lambda>number_of_images.
          Inr (PDict
            [(''id'', dict_get llm_response ''id'' (PStr (''img-'' @ uuid4 env))),
             (''object'', PStr ''chat.completion''),
             (''created'', dict_get llm_response ''created'' (PInt (clock env))),
             (''model'', PStr model_name),
             (''choices'',
                PList [PDict
                  [(''index'', PInt 0),
                   (''message'',
                      PDict [(''role'', PStr ''assistant''),
                             (''content'',
                                PStr ''I've generated an image based on your request.'')]),
                   (''finish_reason'', PStr ''stop'')]]),
             (''usage'',
                PDict [(''prompt_tokens'', PInt 0), (''completion_tokens'', PInt 10),
                       (''total_tokens'', PInt 10)]),
             (''images'', dict_get llm_response ''data'' (PList []))]))
      else if is_dict llm_response \<and> dict_has llm_response ''error'' then Inr llm_response
      else
        and_then (content_and_usage env llm_response) (\<lambda>(c, usage).
        and_then (debug_prefix cfg model_name c) (\<lambda>c'.
          Inr (PDict
            [(''id'', PStr (''chatcmpl-'' @ uuid4 env)),
             (''object'', PStr ''chat.completion''),
             (''created'', PInt (clock env)),
             (''model'', PStr model_name),
             (''choices'',
                PList [PDict
                  [(''index'', PInt 0),
                   (''message'', PDict [(''role'', PStr ''assistant''), (''content'', c')]),
                   (''logprobs'', PNone),
                   (''finish_reason'', PStr ''stop'')]]),
             (''usage'', usage)]))))"

text \<open>
  The call of the backend and everything after it, inside the \<open>try\<close>: an exception of the
  backend, of the preview or of the normalization becomes the \<open>HTTPException\<close> 500.
  \<open>n\<close> interactions came before.
\<close>

definition generate_and_format ::
  "settings \<Rightarrow> environment \<Rightarrow> nat \<Rightarrow> ChatRequest \<Rightarrow> string \<times> resolution
     \<Rightarrow> (failure + pyval) \<times> event list" where
  "generate_and_format cfg env n chat_request resolved =
     (let temperature =
            (case req_temperature chat_request of None \<Rightarrow> 7 / 10 | Some t \<Rightarrow> t);
          r = snd resolved;
          call = \<lparr> call_client = res_client r, call_model_id = res_model_id r,
                   call_messages = req_messages chat_request,
                   call_temperature = temperature,
                   call_api_parameters = res_api_parameters r,
                   call_system_prompt = res_system_prompt r \<rparr>
      in (case backend env n call of
            Inl msg \<Rightarrow> Inl (HTTPException 500 (FailedToGenerate (Inl msg)))
          | Inr response \<Rightarrow>
              (case and_then (log_response_preview response)
                      (\<lambda>u. format_openai_response cfg env response (fst resolved)) of
                 Inl e \<Rightarrow> Inl (HTTPException 500 (FailedToGenerate (Inr e)))
               | Inr reply \<Rightarrow> Inr reply),
          [Generate call]))"

text \<open>
  \<open>route_and_process\<close>. It returns the reply or the failure, the interactions in their
  order, and the process-wide \<open>conversation_state_manager\<close>: the router module neither
  imports nor calls the state store (its \<open>conversation_state\<close> is the empty dictionary
  \<open>{}\<close>), so the manager comes back as it went in.
\<close>

definition route ::
  "settings \<Rightarrow> environment \<Rightarrow> ChatRequest \<Rightarrow> (failure + pyval) \<times> event list" where
  "route cfg env chat_request =
     (let messages = req_messages chat_request
      in if messages = [] then (Inl (HTTPException 400 (Detail ''No messages provided.'')), [])
         else
           (case select_target cfg env messages of
              (Inl e, ev1) \<Rightarrow> (Inl (Uncaught e), ev1)
            | (Inr decision, ev1) \<Rightarrow>
                (case resolve_with_fallback cfg env (target_model decision) of
                   (Inl f, ev2) \<Rightarrow> (Inl f, ev1 @ ev2)
                 | (Inr resolved, ev2) \<Rightarrow>
                     (case force_gemini cfg env (should_use_vision_model messages) resolved of
                        (Inl f, ev3) \<Rightarrow> (Inl f, ev1 @ ev2 @ ev3)
                      | (Inr resolved', ev3) \<Rightarrow>
                          (case generate_and_format cfg env (length (ev1 @ ev2 @ ev3))
                                  chat_request resolved' of
                             (result, ev4) \<Rightarrow> (result, ev1 @ ev2 @ ev3 @ ev4))))))"

definition route_and_process ::
  "settings \<Rightarrow> environment \<Rightarrow> ChatRequest \<Rightarrow> ConversationStateManager
     \<Rightarrow> (failure + pyval) \<times> event list \<times> ConversationStateManager" where
  "route_and_process cfg env chat_request manager =
     (case route cfg env chat_request of (result, events) \<Rightarrow> (result, events, manager))"

section \<open>An example configuration\<close>

text \<open>
  A configuration and an environment on which the model is evaluated below: two OpenAI
  models, two Gemini models and an Ollama model are configured, the research models are not;
  every client initializes, no tokenizer is installed, and every backend call is answered
  with the dictionary that \<open>GeminiClient.generate_response\<close> builds. No double is added
  in the examples, so \<open>float_add\<close> is never asked.
\<close>

definition example_details :: "string \<Rightarrow> string \<Rightarrow> model_details" where
  "example_details prov mid =
     \<lparr> provider = Some prov, model_id = Some mid, model_type = None, parameters = None,
       system_prompt = None, system_prompt_file = None \<rparr>"

definition example_settings :: settings where
  "example_settings =
     \<lparr> classifier_model = ''gpt-mini'',
       simple_no_research_model = ''gpt-mini'',
       simple_research_model = ''sonar'',
       hard_no_research_model = ''gpt-large'',
       hard_research_model = ''sonar-pro'',
       escalation_model = ''gemini-pro'',
       fallback_model = ''gemini-flash'',
       token_usage_threshold = 4000,
       log_level = ''INFO'',
       model_configs =
         [(''gpt-mini'', example_details ''openai'' ''gpt-4o-mini''),
          (''gpt-large'', example_details ''openai'' ''gpt-4o''),
          (''gemini-pro'', example_details ''gemini'' ''gemini-2.5-pro''),
          (''gemini-flash'', example_details ''gemini'' ''gemini-2.5-flash''),
          (''local'', example_details ''ollama'' ''llama3'')] \<rparr>"

definition example_reply :: pyval where
  "example_reply =
     PDict [(''choices'', PList [PDict [(''message'', PDict [(''content'', PStr ''Done.'')])]]),
            (''model'', PStr ''gemini-2.5-pro''),
            (''usage'', PDict [(''prompt_tokens'', PInt 0), (''completion_tokens'', PInt 0),
                               (''total_tokens'', PInt 0)])]"

definition example_environment :: environment where
  "example_environment =
     \<lparr> client_initializes = (\<lambda>c. True),
       prompt_files = (\<lambda>path. None),
       tiktoken_encoding = None,
       json_loads = (\<lambda>s. None),
       backend = (\<lambda>n call. Inr example_reply),
       gemini_image_provider_name = None,
       uuid4 = ''0000'',
       clock = 0,
       float_add = (\<lambda>a b. Inl OverflowError) \<rparr>"

section \<open>Sticky counters under routing updates\<close>

lemma sticky_paired_new_state: "sticky_paired (new_state now cid kws)"
  by (simp add: sticky_paired_def new_state_def)

lemma sticky_paired_update:
  "sticky_paired s \<Longrightarrow> sticky_paired (update_state_after_routing now s m t v h)"
  by (simp add: sticky_paired_def update_state_after_routing_def update_tier_def
      update_heavy_def update_vision_def Let_def)

lemma sticky_paired_foldl:
  "sticky_paired s \<Longrightarrow> sticky_paired (foldl apply_update s us)"
  by (induction us arbitrary: s) (simp_all add: apply_update_def sticky_paired_update)

text \<open>
  C3. From a freshly created state, after any finite sequence of
  \<open>update_state_after_routing\<close> calls with arbitrary arguments, both sticky counters are
  non-negative and each flag is false whenever its counter is 0.
\<close>

theorem sticky_counters_after_updates:
  "0 \<le> vision_sticky_count (foldl apply_update (new_state now cid kws) us) \<and>
   0 \<le> heavy_context_sticky_count (foldl apply_update (new_state now cid kws) us) \<and>
   (vision_sticky_count (foldl apply_update (new_state now cid kws) us) = 0 \<longrightarrow>
      \<not> has_vision_content (foldl apply_update (new_state now cid kws) us)) \<and>
   (heavy_context_sticky_count (foldl apply_update (new_state now cid kws) us) = 0 \<longrightarrow>
      \<not> heavy_context_active (foldl apply_update (new_state now cid kws) us))"
proof -
  have "sticky_paired (foldl apply_update (new_state now cid kws) us)"
    by (rule sticky_paired_foldl [OF sticky_paired_new_state])
  then show ?thesis
    by (simp add: sticky_paired_def)
qed

theorem sticky_counters_after_updates_witness:
  "vision_sticky_count
     (foldl apply_update (new_state 0 ''c'' [])
        [\<lparr>at_time = 1, selected_model = ''m'', model_tier = ''hard'', had_vision = True,
           had_heavy_context = False\<rparr>,
         \<lparr>at_time = 2, selected_model = ''m'', model_tier = ''simple'', had_vision = False,
           had_heavy_context = False\<rparr>,
         \<lparr>at_time = 3, selected_model = ''m'', model_tier = ''simple'', had_vision = False,
           had_heavy_context = False\<rparr>,
         \<lparr>at_time = 4, selected_model = ''m'', model_tier = ''simple'', had_vision = False,
           had_heavy_context = False\<rparr>]) = 0 \<and>
   \<not> has_vision_content
     (foldl apply_update (new_state 0 ''c'' [])
        [\<lparr>at_time = 1, selected_model = ''m'', model_tier = ''hard'', had_vision = True,
           had_heavy_context = False\<rparr>,
         \<lparr>at_time = 2, selected_model = ''m'', model_tier = ''simple'', had_vision = False,
           had_heavy_context = False\<rparr>,
         \<lparr>at_time = 3, selected_model = ''m'', model_tier = ''simple'', had_vision = False,
           had_heavy_context = False\<rparr>,
         \<lparr>at_time = 4, selected_model = ''m'', model_tier = ''simple'', had_vision = False,
           had_heavy_context = False\<rparr>])"
  (is "?c = 0 \<and> \<not> ?f")
proof -
  have zero: "?c = 0"
    by (simp add: apply_update_def update_state_after_routing_def update_tier_def
        update_heavy_def update_vision_def new_state_def Let_def)
  from sticky_counters_after_updates [of 0 "''c''" "[]"] zero
  show ?thesis
    by blast
qed

section \<open>Sticky counters across the store operations\<close>

lemma cleanup_objects [simp]: "objects (cleanup_old_conversations now m) = objects m"
  by (simp add: cleanup_old_conversations_def Let_def)






















section \<open>The empty conversation\<close>

text \<open>
  C10. The fingerprint of an empty message list is the fixed string \<open>empty_conversation\<close>
  and the first \<open>get_or_create_state\<close> on an empty list creates the state; the second call
  finds that state and raises \<open>IndexError\<close> in \<open>_detect_topic_change\<close>, which reads
  \<open>messages[-1]\<close> without the guard that its two sibling functions have.
\<close>

theorem empty_conversation_second_call:
  "generate_conversation_id md5 [] = ''empty_conversation'' \<and>
   fst (get_or_create_state md5 0 [] (conversation_state_manager 0)) = Inr 0 \<and>
   fst (get_or_create_state md5 1 []
          (snd (get_or_create_state md5 0 [] (conversation_state_manager 0)))) = Inl IndexError"
  by (simp add: generate_conversation_id_def get_or_create_state_def
      cleanup_old_conversations_def conversation_state_manager_def init_manager_def
      extract_topic_keywords_def detect_topic_change_def new_state_def Let_def)

section \<open>Topic drift\<close>

lemma keyword_drift_iff:
  "keyword_drift cur stored \<longleftrightarrow>
     cur \<noteq> [] \<and> stored \<noteq> [] \<and>
     real (card (set cur \<inter> set stored)) / real (card (set cur \<union> set stored)) < 3 / 10"
proof (cases "stored \<noteq> [] \<and> cur \<noteq> []")
  case True
  then have "card (set cur \<union> set stored) > 0"
    by (simp add: card_gt_0_iff)
  with True show ?thesis
    by (auto simp: keyword_drift_def Let_def)
next
  case False
  then show ?thesis
    by (auto simp: keyword_drift_def)
qed

lemma keyword_drift_cards:
  assumes "card (set cur \<inter> set stored) = a" and "card (set cur \<union> set stored) = b" and "0 < a"
  shows "keyword_drift cur stored \<longleftrightarrow> real a / real b < 3 / 10"
proof -
  from assms have "set cur \<inter> set stored \<noteq> {}"
    by auto
  then have "cur \<noteq> []" "stored \<noteq> []"
    by auto
  with assms show ?thesis
    by (simp add: keyword_drift_iff)
qed

lemma last_n_idem: "last_n 3 (last_n 3 xs) = last_n 3 xs"
  by (simp add: last_n_def)

lemma last_n_Nil_iff: "last_n 3 xs = [] \<longleftrightarrow> xs = []"
  by (cases xs) (auto simp: last_n_def)

lemma extract_last_three:
  "extract_topic_keywords (last_n 3 messages) = extract_topic_keywords messages"
  by (simp add: extract_topic_keywords_def last_n_idem last_n_Nil_iff)

lemma keywords_of_text_props:
  "length (keywords_of_text t) \<le> 10 \<and>
   (\<forall>k\<in>set (keywords_of_text t). 3 < length k \<and> k \<notin> set stop_words)"
  by (auto simp: keywords_of_text_def Let_def dest: in_set_takeD)

lemma extract_props:
  "length (extract_topic_keywords messages) \<le> 10 \<and>
   (\<forall>k\<in>set (extract_topic_keywords messages). 3 < length k \<and> k \<notin> set stop_words)"
  using keywords_of_text_props by (simp add: extract_topic_keywords_def Let_def)

text \<open>
  C8, as the code has it. For a non-empty message list, drift is declared exactly when the
  lower-cased text of the last message contains a marker, or the current and the stored
  keyword lists are both non-empty and the quotient of overlap and union is strictly below
  3/10. The current keywords are taken from the user messages among the last three messages;
  there are at most 10 of them, each longer than 3 characters and no stop word. One common
  keyword out of 10 declares drift, 5 out of 10 do not, and an empty list on either side
  declares none.
\<close>

theorem topic_drift_rule:
  assumes "messages \<noteq> []"
  shows
    "detect_topic_change messages st =
       Inr ((\<exists>indicator\<in>set topic_change_indicators.
               contains (lower (get_text_from_content (content (last messages)))) indicator) \<or>
            (extract_topic_keywords messages \<noteq> [] \<and> topic_keywords st \<noteq> [] \<and>
             real (card (set (extract_topic_keywords messages) \<inter> set (topic_keywords st))) /
             real (card (set (extract_topic_keywords messages) \<union> set (topic_keywords st)))
               < 3 / 10)) \<and>
     extract_topic_keywords messages =
       keywords_of_text
         (lower (join '' ''
            (map (\<lambda>msg. get_text_from_content (content msg))
               (filter (\<lambda>msg. role msg = ''user'') (last_n 3 messages))))) \<and>
     length (extract_topic_keywords messages) \<le> 10 \<and>
     (\<forall>k\<in>set (extract_topic_keywords messages). 3 < length k \<and> k \<notin> set stop_words) \<and>
     (card (set c1 \<inter> set s1) = 1 \<and> card (set c1 \<union> set s1) = 10 \<longrightarrow>
        keyword_drift c1 s1) \<and>
     (card (set c2 \<inter> set s2) = 5 \<and> card (set c2 \<union> set s2) = 10 \<longrightarrow>
        \<not> keyword_drift c2 s2) \<and>
     \<not> keyword_drift [] s3 \<and> \<not> keyword_drift c3 []"
proof -
  have "detect_topic_change messages st =
       Inr ((\<exists>indicator\<in>set topic_change_indicators.
               contains (lower (get_text_from_content (content (last messages)))) indicator) \<or>
            (extract_topic_keywords messages \<noteq> [] \<and> topic_keywords st \<noteq> [] \<and>
             real (card (set (extract_topic_keywords messages) \<inter> set (topic_keywords st))) /
             real (card (set (extract_topic_keywords messages) \<union> set (topic_keywords st)))
               < 3 / 10))"
    using assms by (simp add: detect_topic_change_def Let_def list_ex_iff keyword_drift_iff)
  moreover have "extract_topic_keywords messages =
       keywords_of_text
         (lower (join '' ''
            (map (\<lambda>msg. get_text_from_content (content msg))
               (filter (\<lambda>msg. role msg = ''user'') (last_n 3 messages)))))"
    using assms by (simp add: extract_topic_keywords_def Let_def)
  moreover have "card (set c1 \<inter> set s1) = 1 \<and> card (set c1 \<union> set s1) = 10 \<longrightarrow>
        keyword_drift c1 s1"
    using keyword_drift_cards [of c1 s1 1 10] by simp
  moreover have "card (set c2 \<inter> set s2) = 5 \<and> card (set c2 \<union> set s2) = 10 \<longrightarrow>
        \<not> keyword_drift c2 s2"
    using keyword_drift_cards [of c2 s2 5 10] by simp
  moreover have "\<not> keyword_drift [] s3 \<and> \<not> keyword_drift c3 []"
    by (simp add: keyword_drift_def)
  ultimately show ?thesis
    using extract_props [of messages] by blast
qed

theorem topic_drift_rule_witness:
  "detect_topic_change
     [\<lparr>role = ''user'', content = Text ''quantum''\<rparr>,
      \<lparr>role = ''assistant'', content = Text ''fine''\<rparr>,
      \<lparr>role = ''user'', content = Text ''gardening''\<rparr>]
     (new_state 0 ''c'' [''quantum'', ''gardening'']) = Inr False \<and>
   keyword_drift [''k1'', ''k2'', ''k3'', ''k4'', ''k5'']
     [''k1'', ''k6'', ''k7'', ''k8'', ''k9'', ''k10''] \<and>
   \<not> keyword_drift [''k1'', ''k2'', ''k3'', ''k4'', ''k5'', ''k6'', ''k7'', ''k8'']
     [''k4'', ''k5'', ''k6'', ''k7'', ''k8'', ''k9'', ''k10'']"
proof -
  let ?msgs = "[\<lparr>role = ''user'', content = Text ''quantum''\<rparr>,
      \<lparr>role = ''assistant'', content = Text ''fine''\<rparr>,
      \<lparr>role = ''user'', content = Text ''gardening''\<rparr>]"
  let ?st = "new_state 0 ''c'' [''quantum'', ''gardening'']"
  let ?c1 = "[''k1'', ''k2'', ''k3'', ''k4'', ''k5'']"
  let ?s1 = "[''k1'', ''k6'', ''k7'', ''k8'', ''k9'', ''k10'']"
  let ?c2 = "[''k1'', ''k2'', ''k3'', ''k4'', ''k5'', ''k6'', ''k7'', ''k8'']"
  let ?s2 = "[''k4'', ''k5'', ''k6'', ''k7'', ''k8'', ''k9'', ''k10'']"
  have ne: "?msgs \<noteq> []"
    by simp
  have one: "card (set ?c1 \<inter> set ?s1) = 1 \<and> card (set ?c1 \<union> set ?s1) = 10"
    by code_simp
  have five: "card (set ?c2 \<inter> set ?s2) = 5 \<and> card (set ?c2 \<union> set ?s2) = 10"
    by code_simp
  have kws: "extract_topic_keywords ?msgs = [''quantum'', ''gardening'']"
    by code_simp
  have last: "lower (get_text_from_content (content (last ?msgs))) = ''gardening''"
    by code_simp
  have no_marker: "\<not> (\<exists>indicator\<in>set topic_change_indicators. contains ''gardening'' indicator)"
    by code_simp
  have stored: "topic_keywords ?st = [''quantum'', ''gardening'']"
    by (simp add: new_state_def)
  have ratio: "\<not> real (card (set [''quantum'', ''gardening''] \<inter> set [''quantum'', ''gardening''])) /
      real (card (set [''quantum'', ''gardening''] \<union> set [''quantum'', ''gardening''])) < 3 / 10"
    by simp
  from topic_drift_rule [OF ne, of ?st ?c1 ?s1 ?c2 ?s2] one five
  have "detect_topic_change ?msgs ?st =
       Inr ((\<exists>indicator\<in>set topic_change_indicators.
               contains (lower (get_text_from_content (content (last ?msgs)))) indicator) \<or>
            (extract_topic_keywords ?msgs \<noteq> [] \<and> topic_keywords ?st \<noteq> [] \<and>
             real (card (set (extract_topic_keywords ?msgs) \<inter> set (topic_keywords ?st))) /
             real (card (set (extract_topic_keywords ?msgs) \<union> set (topic_keywords ?st)))
               < 3 / 10))"
    and "keyword_drift ?c1 ?s1" and "\<not> keyword_drift ?c2 ?s2"
    by blast+
  then show ?thesis
    unfolding kws last stored using no_marker ratio by simp
qed

text \<open>
  The claim's wording, keywords "from the last 3 user turns", is not what the code computes:
  in an alternating conversation the last three messages hold two user turns only. Here the
  code declares drift and the rule over the last three user turns does not.
\<close>

theorem topic_drift_last_three_user_turns:
  "detect_topic_change
     [\<lparr>role = ''user'', content = Text ''quantum''\<rparr>,
      \<lparr>role = ''assistant'', content = Text ''fine''\<rparr>,
      \<lparr>role = ''user'', content = Text ''gardening''\<rparr>,
      \<lparr>role = ''assistant'', content = Text ''fine''\<rparr>,
      \<lparr>role = ''user'', content = Text ''gardening''\<rparr>]
     (new_state 0 ''c'' [''quantum'']) = Inr True \<and>
   \<not> spec_topic_drift
     [\<lparr>role = ''user'', content = Text ''quantum''\<rparr>,
      \<lparr>role = ''assistant'', content = Text ''fine''\<rparr>,
      \<lparr>role = ''user'', content = Text ''gardening''\<rparr>,
      \<lparr>role = ''assistant'', content = Text ''fine''\<rparr>,
      \<lparr>role = ''user'', content = Text ''gardening''\<rparr>]
     (new_state 0 ''c'' [''quantum''])"
  by code_simp

section \<open>Target selection\<close>

text \<open>
  C7. The target model and the tier are chosen by the first condition that holds, in the
  order vision need, heavy-context need, title generation, escalation, explicit research;
  a vision request gets the hard non-research model with the tier \<open>hard\<close>, a research
  request the fixed model \<open>Perplexity-Research\<close>, and only when all five conditions fail
  is the classifier called: then the interactions of the selection are those of
  \<open>classify_message\<close> and its label picks the model. A selection that made an interaction,
  or that records a classified label, had all five conditions false.
\<close>

theorem selection_priority:
  "(should_use_vision_model messages \<longrightarrow>
      select_target cfg env messages =
        (Inr \<lparr>target_model = hard_no_research_model cfg, tier = ''hard'', why = Vision\<rparr>, [])) \<and>
   (\<not> should_use_vision_model messages \<and> detect_heavy_context cfg env messages \<longrightarrow>
      select_target cfg env messages =
        (Inr \<lparr>target_model = hard_no_research_model cfg, tier = ''hard'',
              why = HeavyContext\<rparr>, [])) \<and>
   (\<not> should_use_vision_model messages \<and> \<not> detect_heavy_context cfg env messages \<and>
    is_title_generation_request messages \<longrightarrow>
      select_target cfg env messages =
        (Inr \<lparr>target_model = simple_no_research_model cfg, tier = ''simple'',
              why = Title\<rparr>, [])) \<and>
   (\<not> should_use_vision_model messages \<and> \<not> detect_heavy_context cfg env messages \<and>
    \<not> is_title_generation_request messages \<and>
    is_escalation_request (get_text_from_content (content (last messages))) \<longrightarrow>
      select_target cfg env messages =
        (Inr \<lparr>target_model = escalation_model cfg, tier = ''escalation'',
              why = Escalation\<rparr>, [])) \<and>
   (\<not> should_use_vision_model messages \<and> \<not> detect_heavy_context cfg env messages \<and>
    \<not> is_title_generation_request messages \<and>
    \<not> is_escalation_request (get_text_from_content (content (last messages))) \<and>
    is_research_request (get_text_from_content (content (last messages))) \<longrightarrow>
      select_target cfg env messages =
        (Inr \<lparr>target_model = ''Perplexity-Research'', tier = ''research'',
              why = Research\<rparr>, [])) \<and>
   (\<not> should_use_vision_model messages \<and> \<not> detect_heavy_context cfg env messages \<and>
    \<not> is_title_generation_request messages \<and>
    \<not> is_escalation_request (get_text_from_content (content (last messages))) \<and>
    \<not> is_research_request (get_text_from_content (content (last messages))) \<longrightarrow>
      snd (select_target cfg env messages) = snd (classify_message cfg env 0 messages) \<and>
      (case fst (classify_message cfg env 0 messages) of
         Inl e \<Rightarrow> fst (select_target cfg env messages) = Inl e
       | Inr category \<Rightarrow>
           fst (select_target cfg env messages) =
             Inr \<lparr>target_model =
                    (case map_of (model_mappings cfg) category of
                       None \<Rightarrow> fallback_model cfg | Some m \<Rightarrow> m),
                  tier = (if contains category ''hard'' then ''hard'' else ''simple''),
                  why = Classified category\<rparr>)) \<and>
   (snd (select_target cfg env messages) \<noteq> [] \<or>
    (\<exists>d category. fst (select_target cfg env messages) = Inr d \<and> why d = Classified category)
      \<longrightarrow>
      \<not> should_use_vision_model messages \<and> \<not> detect_heavy_context cfg env messages \<and>
      \<not> is_title_generation_request messages \<and>
      \<not> is_escalation_request (get_text_from_content (content (last messages))) \<and>
      \<not> is_research_request (get_text_from_content (content (last messages))))"
  by (auto simp: select_target_def Let_def determine_model_tier_def
      split: prod.splits sum.splits)

theorem selection_priority_witness:
  "select_target example_settings example_environment
     [\<lparr>role = ''user'',
        content = Parts [\<lparr>part_type = Some ''image_url'', part_text = None\<rparr>]\<rparr>] =
     (Inr \<lparr>target_model = ''gpt-large'', tier = ''hard'', why = Vision\<rparr>, []) \<and>
   select_target example_settings
     (example_environment\<lparr>tiktoken_encoding := Some (\<lambda>t. 5000)\<rparr>)
     [\<lparr>role = ''user'', content = Text ''hello there''\<rparr>] =
     (Inr \<lparr>target_model = ''gpt-large'', tier = ''hard'', why = HeavyContext\<rparr>, []) \<and>
   select_target example_settings example_environment
     [\<lparr>role = ''user'', content = Text ''Generate a title for this chat''\<rparr>] =
     (Inr \<lparr>target_model = ''gpt-mini'', tier = ''simple'', why = Title\<rparr>, []) \<and>
   select_target example_settings example_environment
     [\<lparr>role = ''user'', content = Text ''Escalate This''\<rparr>] =
     (Inr \<lparr>target_model = ''gemini-pro'', tier = ''escalation'', why = Escalation\<rparr>, []) \<and>
   select_target example_settings example_environment
     [\<lparr>role = ''user'', content = Text ''research the history of Rome''\<rparr>] =
     (Inr \<lparr>target_model = ''Perplexity-Research'', tier = ''research'', why = Research\<rparr>, []) \<and>
   fst (select_target example_settings example_environment
     [\<lparr>role = ''user'', content = Text ''hello there''\<rparr>]) =
     Inr \<lparr>target_model = ''gpt-mini'', tier = ''simple'',
          why = Classified ''simple_no_research''\<rparr> \<and>
   \<not> is_research_request ''hello there''"
proof -
  let ?cfg = example_settings and ?env = example_environment
  let ?envH = "example_environment\<lparr>tiktoken_encoding := Some (\<lambda>t. 5000)\<rparr>"
  let ?image = "[\<lparr>role = ''user'',
        content = Parts [\<lparr>part_type = Some ''image_url'', part_text = None\<rparr>]\<rparr>]"
  let ?hello = "[\<lparr>role = ''user'', content = Text ''hello there''\<rparr>]"
  let ?title = "[\<lparr>role = ''user'', content = Text ''Generate a title for this chat''\<rparr>]"
  let ?esc = "[\<lparr>role = ''user'', content = Text ''Escalate This''\<rparr>]"
  let ?research = "[\<lparr>role = ''user'', content = Text ''research the history of Rome''\<rparr>]"
  have names: "hard_no_research_model ?cfg = ''gpt-large''"
    "simple_no_research_model ?cfg = ''gpt-mini''" "escalation_model ?cfg = ''gemini-pro''"
    by (simp_all add: example_settings_def)
  have c1: "should_use_vision_model ?image"
    by code_simp
  have c2: "\<not> should_use_vision_model ?hello \<and> detect_heavy_context ?cfg ?envH ?hello"
    by code_simp
  have c3: "\<not> should_use_vision_model ?title \<and> \<not> detect_heavy_context ?cfg ?env ?title \<and>
      is_title_generation_request ?title"
    by code_simp
  have c4: "\<not> should_use_vision_model ?esc \<and> \<not> detect_heavy_context ?cfg ?env ?esc \<and>
      \<not> is_title_generation_request ?esc \<and>
      is_escalation_request (get_text_from_content (content (last ?esc)))"
    by code_simp
  have c5: "\<not> should_use_vision_model ?research \<and>
      \<not> detect_heavy_context ?cfg ?env ?research \<and>
      \<not> is_title_generation_request ?research \<and>
      \<not> is_escalation_request (get_text_from_content (content (last ?research))) \<and>
      is_research_request (get_text_from_content (content (last ?research)))"
    by code_simp
  have c6: "\<not> should_use_vision_model ?hello \<and> \<not> detect_heavy_context ?cfg ?env ?hello \<and>
      \<not> is_title_generation_request ?hello \<and>
      \<not> is_escalation_request (get_text_from_content (content (last ?hello))) \<and>
      \<not> is_research_request (get_text_from_content (content (last ?hello)))"
    by code_simp
  have cls: "fst (classify_message ?cfg ?env 0 ?hello) = Inr ''simple_no_research''"
    by code_simp
  have map: "(case map_of (model_mappings ?cfg) ''simple_no_research'' of
        None \<Rightarrow> fallback_model ?cfg | Some m \<Rightarrow> m) = ''gpt-mini''"
    "(if contains ''simple_no_research'' ''hard'' then ''hard'' else ''simple'') = ''simple''"
    by code_simp+
  have ev: "snd (select_target ?cfg ?env ?hello) \<noteq> []"
    by code_simp
  have last: "get_text_from_content (content (last ?hello)) = ''hello there''"
    by (simp add: get_text_from_content_def)
  from selection_priority [of ?image ?cfg ?env] c1
  have r1: "select_target ?cfg ?env ?image =
      (Inr \<lparr>target_model = hard_no_research_model ?cfg, tier = ''hard'', why = Vision\<rparr>, [])"
    by blast
  from selection_priority [of ?hello ?cfg ?envH] c2
  have r2: "select_target ?cfg ?envH ?hello =
      (Inr \<lparr>target_model = hard_no_research_model ?cfg, tier = ''hard'',
            why = HeavyContext\<rparr>, [])"
    by blast
  from selection_priority [of ?title ?cfg ?env] c3
  have r3: "select_target ?cfg ?env ?title =
      (Inr \<lparr>target_model = simple_no_research_model ?cfg, tier = ''simple'',
            why = Title\<rparr>, [])"
    by blast
  from selection_priority [of ?esc ?cfg ?env] c4
  have r4: "select_target ?cfg ?env ?esc =
      (Inr \<lparr>target_model = escalation_model ?cfg, tier = ''escalation'',
            why = Escalation\<rparr>, [])"
    by blast
  from selection_priority [of ?research ?cfg ?env] c5
  have r5: "select_target ?cfg ?env ?research =
      (Inr \<lparr>target_model = ''Perplexity-Research'', tier = ''research'',
            why = Research\<rparr>, [])"
    by blast
  from selection_priority [of ?hello ?cfg ?env] c6
  have "case fst (classify_message ?cfg ?env 0 ?hello) of
         Inl e \<Rightarrow> fst (select_target ?cfg ?env ?hello) = Inl e
       | Inr category \<Rightarrow>
           fst (select_target ?cfg ?env ?hello) =
             Inr \<lparr>target_model =
                    (case map_of (model_mappings ?cfg) category of
                       None \<Rightarrow> fallback_model ?cfg | Some m \<Rightarrow> m),
                  tier = (if contains category ''hard'' then ''hard'' else ''simple''),
                  why = Classified category\<rparr>"
    by blast
  then have r6: "fst (select_target ?cfg ?env ?hello) =
      Inr \<lparr>target_model = ''gpt-mini'', tier = ''simple'',
           why = Classified ''simple_no_research''\<rparr>"
    by (simp only: cls map sum.case)
  from selection_priority [of ?hello ?cfg ?env] ev
  have r7: "\<not> is_research_request ''hello there''"
    unfolding last by blast
  from r1 r2 r3 r4 r5 r6 r7 show ?thesis
    by (simp add: names)
qed

section \<open>Resolution, fallback and the vision override\<close>

lemma resolve_with_fallback_events:
  "resolve_with_fallback cfg env target = (r, ev) \<Longrightarrow> \<forall>c. Generate c \<notin> set ev"
  by (auto simp: resolve_with_fallback_def split: sum.splits option.splits)

lemma force_gemini_events:
  "force_gemini cfg env v resolved = (r, ev) \<Longrightarrow> \<forall>c. Generate c \<notin> set ev"
  by (auto simp: force_gemini_def split: sum.splits option.splits if_splits)

lemma force_gemini_provider:
  "force_gemini cfg env True resolved = (Inr resolved', ev) \<Longrightarrow>
   provider_name env (res_client (snd resolved')) = ''gemini''"
  by (auto simp: force_gemini_def split: sum.splits option.splits if_splits)

lemma generate_and_format_events:
  "generate_and_format cfg env n req resolved = (r, ev) \<Longrightarrow>
   \<exists>call. ev = [Generate call] \<and> call_client call = res_client (snd resolved)"
  by (auto simp: generate_and_format_def Let_def)

lemma select_target_vision:
  "should_use_vision_model messages \<Longrightarrow>
   select_target cfg env messages =
     (Inr \<lparr>target_model = hard_no_research_model cfg, tier = ''hard'', why = Vision\<rparr>, [])"
  by (simp add: select_target_def Let_def)

lemma route_vision_generate:
  assumes v: "should_use_vision_model (req_messages req)"
    and r: "route cfg env req = (result, events)"
  shows "\<forall>call. Generate call \<in> set events \<longrightarrow> provider_name env (call_client call) = ''gemini''"
proof -
  from v have ne: "req_messages req \<noteq> []"
    by (auto simp: should_use_vision_model_def)
  obtain r2 ev2 where rf: "resolve_with_fallback cfg env (hard_no_research_model cfg) = (r2, ev2)"
    by (cases "resolve_with_fallback cfg env (hard_no_research_model cfg)")
  note g2 = resolve_with_fallback_events [OF rf]
  show ?thesis
  proof (cases r2)
    case (Inl f)
    with r ne v rf g2 show ?thesis
      by (auto simp: route_def Let_def select_target_vision)
  next
    case (Inr resolved)
    obtain r3 ev3 where fg: "force_gemini cfg env True resolved = (r3, ev3)"
      by (cases "force_gemini cfg env True resolved")
    note g3 = force_gemini_events [OF fg]
    show ?thesis
    proof (cases r3)
      case (Inl f)
      with r ne v rf g2 Inr fg g3 show ?thesis
        by (auto simp: route_def Let_def select_target_vision)
    next
      case (Inr resolved')
      obtain r4 ev4 where gf: "generate_and_format cfg env (length (ev2 @ ev3)) req resolved' = (r4, ev4)"
        by (cases "generate_and_format cfg env (length (ev2 @ ev3)) req resolved'")
      from generate_and_format_events [OF gf] obtain call where
        c: "ev4 = [Generate call]" "call_client call = res_client (snd resolved')"
        by blast
      from fg Inr have p: "provider_name env (res_client (snd resolved')) = ''gemini''"
        by (simp add: force_gemini_provider)
      from r ne v rf \<open>r2 = Inr resolved\<close> fg Inr gf
      have "events = ev2 @ ev3 @ ev4"
        by (auto simp: route_def Let_def select_target_vision)
      with g2 g3 c p show ?thesis
        by auto
    qed
  qed
qed

lemma route_vision_unfold:
  assumes v: "should_use_vision_model (req_messages req)"
    and rf: "resolve_with_fallback cfg env (hard_no_research_model cfg) = (Inr resolved, ev)"
  shows "route cfg env req =
     (case force_gemini cfg env True resolved of
        (Inl f, ev3) \<Rightarrow> (Inl f, ev @ ev3)
      | (Inr resolved', ev3) \<Rightarrow>
          (case generate_and_format cfg env (length (ev @ ev3)) req resolved' of
             (result, ev4) \<Rightarrow> (result, ev @ ev3 @ ev4)))"
proof -
  from v have ne: "req_messages req \<noteq> []"
    by (auto simp: should_use_vision_model_def)
  with v rf show ?thesis
    by (simp add: route_def Let_def select_target_vision split: prod.splits sum.splits)
qed

text \<open>
  C4. For a request that needs vision, every \<open>generate_response\<close> call goes to a client
  whose provider is \<open>gemini\<close>. When the resolution of step 5 gave another provider, the
  next interaction is the resolution of the escalation model; when that does not give a
  \<open>gemini\<close> client, nothing follows and the request fails, with the \<open>HTTPException\<close> 500
  whenever the resolution returned.
\<close>

theorem vision_safety_override:
  assumes v: "should_use_vision_model (req_messages req)"
    and r: "route cfg env req = (result, events)"
  shows
    "(\<forall>call. Generate call \<in> set events \<longrightarrow>
        provider_name env (call_client call) = ''gemini'') \<and>
     (resolve_with_fallback cfg env (hard_no_research_model cfg) = (Inr resolved, ev) \<and>
      provider_name env (res_client (snd resolved)) \<noteq> ''gemini'' \<longrightarrow>
        take (Suc (length ev)) events = ev @ [Resolve (escalation_model cfg)] \<and>
        ((\<forall>r'. get_llm_client_and_model_details cfg env (escalation_model cfg) = Inr (Some r')
            \<longrightarrow> provider_name env (res_client r') \<noteq> ''gemini'') \<longrightarrow>
           events = ev @ [Resolve (escalation_model cfg)] \<and> (\<exists>f. result = Inl f)) \<and>
        ((\<forall>r'. get_llm_client_and_model_details cfg env (escalation_model cfg) = Inr (Some r')
            \<longrightarrow> provider_name env (res_client r') \<noteq> ''gemini'') \<and>
         (\<exists>x. get_llm_client_and_model_details cfg env (escalation_model cfg) = Inr x) \<longrightarrow>
           result =
             Inl (HTTPException 500 (Detail ''Cannot find Gemini model for vision task!''))))"
proof -
  have a: "\<forall>call. Generate call \<in> set events \<longrightarrow>
        provider_name env (call_client call) = ''gemini''"
    by (rule route_vision_generate [OF v r])
  have b: "take (Suc (length ev)) events = ev @ [Resolve (escalation_model cfg)] \<and>
        ((\<forall>r'. get_llm_client_and_model_details cfg env (escalation_model cfg) = Inr (Some r')
            \<longrightarrow> provider_name env (res_client r') \<noteq> ''gemini'') \<longrightarrow>
           events = ev @ [Resolve (escalation_model cfg)] \<and> (\<exists>f. result = Inl f)) \<and>
        ((\<forall>r'. get_llm_client_and_model_details cfg env (escalation_model cfg) = Inr (Some r')
            \<longrightarrow> provider_name env (res_client r') \<noteq> ''gemini'') \<and>
         (\<exists>x. get_llm_client_and_model_details cfg env (escalation_model cfg) = Inr x) \<longrightarrow>
           result =
             Inl (HTTPException 500 (Detail ''Cannot find Gemini model for vision task!'')))"
    if rf: "resolve_with_fallback cfg env (hard_no_research_model cfg) = (Inr resolved, ev)"
      and ng: "provider_name env (res_client (snd resolved)) \<noteq> ''gemini''"
  proof -
    note u = r [unfolded route_vision_unfold [OF v rf]]
    show ?thesis
    proof (cases "get_llm_client_and_model_details cfg env (escalation_model cfg)")
      case (Inl e)
      with u ng show ?thesis
        by (auto simp: force_gemini_def)
    next
      case (Inr x)
      show ?thesis
      proof (cases x)
        case None
        with u ng Inr show ?thesis
          by (auto simp: force_gemini_def)
      next
        case (Some r')
        show ?thesis
        proof (cases "provider_name env (res_client r') = ''gemini''")
          case True
          with u ng Inr Some show ?thesis
            by (auto simp: force_gemini_def generate_and_format_def Let_def)
        next
          case False
          with u ng Inr Some show ?thesis
            by (auto simp: force_gemini_def)
        qed
      qed
    qed
  qed
  from a b show ?thesis
    by blast
qed

theorem vision_safety_override_witness:
  "(\<exists>call. Generate call \<in> set (snd (route example_settings example_environment
        \<lparr>req_messages =
           [\<lparr>role = ''user'',
              content = Parts [\<lparr>part_type = Some ''image_url'', part_text = None\<rparr>]\<rparr>],
         req_temperature = None\<rparr>)) \<and>
      provider_name example_environment (call_client call) = ''gemini'') \<and>
   fst (route example_settings
          (example_environment\<lparr>client_initializes := (\<lambda>c. c \<noteq> GeminiClient)\<rparr>)
          \<lparr>req_messages =
             [\<lparr>role = ''user'',
                content = Parts [\<lparr>part_type = Some ''image_url'', part_text = None\<rparr>]\<rparr>],
           req_temperature = None\<rparr>) =
     Inl (HTTPException 500 (Detail ''Cannot find Gemini model for vision task!''))"
proof -
  let ?req = "\<lparr>req_messages =
             [\<lparr>role = ''user'',
                content = Parts [\<lparr>part_type = Some ''image_url'', part_text = None\<rparr>]\<rparr>],
           req_temperature = None\<rparr>"
  let ?envB = "example_environment\<lparr>client_initializes := (\<lambda>c. c \<noteq> GeminiClient)\<rparr>"
  let ?call = "\<lparr>call_client = GeminiClient, call_model_id = ''gemini-2.5-pro'',
         call_messages = req_messages ?req,
         call_temperature = 7 / 10, call_api_parameters = [],
         call_system_prompt = ''You are a helpful AI assistant.''\<rparr>"
  let ?res = "\<lparr>res_client = OpenAIClient, res_model_id = ''gpt-4o'', res_model_type = ''chat'',
         res_api_parameters = [], res_system_prompt = ''You are a helpful AI assistant.''\<rparr>"
  have v: "should_use_vision_model (req_messages ?req)"
    by code_simp
  have inA: "Generate ?call \<in> set (snd (route example_settings example_environment ?req))"
    by code_simp
  from vision_safety_override [OF v surjective_pairing, of example_settings example_environment]
    inA
  have A: "provider_name example_environment (call_client ?call) = ''gemini''"
    by blast
  have rfB: "resolve_with_fallback example_settings ?envB (hard_no_research_model example_settings) =
      (Inr (''gpt-large'', ?res), [Resolve ''gpt-large''])"
    by code_simp
  have ngB: "provider_name ?envB (res_client (snd (''gpt-large'', ?res))) \<noteq> ''gemini''"
    by code_simp
  have escB: "get_llm_client_and_model_details example_settings ?envB
      (escalation_model example_settings) = Inr None"
    by code_simp
  from vision_safety_override [OF v surjective_pairing, of example_settings ?envB
      "(''gpt-large'', ?res)" "[Resolve ''gpt-large'']"] rfB ngB escB
  have B: "fst (route example_settings ?envB ?req) =
      Inl (HTTPException 500 (Detail ''Cannot find Gemini model for vision task!''))"
    by simp
  from inA A B show ?thesis
    by blast
qed

text \<open>
  C5. When the resolution of the selected target returns no client, the interactions that
  follow the selection are the resolution of the target and one resolution of the fallback
  model. When that returns no client either, the request fails with the \<open>HTTPException\<close>
  500, these two resolutions are all that follows the selection, and no
  \<open>generate_response\<close> call is among them. When it returns a client (and no vision is
  needed) the one call that follows goes to that client.
\<close>

theorem fallback_resolution:
  assumes ne: "req_messages req \<noteq> []"
    and sel: "select_target cfg env (req_messages req) = (Inr d, ev1)"
    and miss: "get_llm_client_and_model_details cfg env (target_model d) = Inr None"
    and r: "route cfg env req = (result, events)"
  shows
    "take (length ev1 + 2) events =
       ev1 @ [Resolve (target_model d), Resolve (fallback_model cfg)] \<and>
     (get_llm_client_and_model_details cfg env (fallback_model cfg) = Inr None \<longrightarrow>
        result = Inl (HTTPException 500 (Detail ''No valid LLM client available'')) \<and>
        events = ev1 @ [Resolve (target_model d), Resolve (fallback_model cfg)] \<and>
        (\<forall>call. Generate call \<notin> set (drop (length ev1) events))) \<and>
     (\<not> should_use_vision_model (req_messages req) \<and>
      get_llm_client_and_model_details cfg env (fallback_model cfg) = Inr (Some fb) \<longrightarrow>
        (\<exists>call. events =
             ev1 @ [Resolve (target_model d), Resolve (fallback_model cfg), Generate call] \<and>
           call_client call = res_client fb \<and> call_model_id call = res_model_id fb))"
proof (cases "get_llm_client_and_model_details cfg env (fallback_model cfg)")
  case (Inl e)
  with ne sel miss r show ?thesis
    by (auto simp: route_def Let_def resolve_with_fallback_def)
next
  case (Inr x)
  show ?thesis
  proof (cases x)
    case None
    with Inr ne sel miss r show ?thesis
      by (auto simp: route_def Let_def resolve_with_fallback_def)
  next
    case (Some fb')
    obtain r3 ev3 where fg: "force_gemini cfg env (should_use_vision_model (req_messages req))
        (fallback_model cfg, fb') = (r3, ev3)"
      by (cases "force_gemini cfg env (should_use_vision_model (req_messages req))
        (fallback_model cfg, fb')")
    show ?thesis
    proof (cases r3)
      case (Inl f)
      with Some Inr ne sel miss r fg show ?thesis
        by (auto simp: route_def Let_def resolve_with_fallback_def force_gemini_def
            split: if_splits)
    next
      case (Inr resolved')
      with Some \<open>get_llm_client_and_model_details cfg env (fallback_model cfg) = Inr x\<close>
        ne sel miss r fg show ?thesis
        by (auto simp: route_def Let_def resolve_with_fallback_def force_gemini_def
            generate_and_format_def split: if_splits sum.splits option.splits)
    qed
  qed
qed

theorem fallback_resolution_witness:
  "route example_settings
     (example_environment\<lparr>client_initializes := (\<lambda>c. c \<noteq> GeminiClient)\<rparr>)
     \<lparr>req_messages = [\<lparr>role = ''user'', content = Text ''research the history of Rome''\<rparr>],
       req_temperature = None\<rparr> =
   (Inl (HTTPException 500 (Detail ''No valid LLM client available'')),
    [Resolve ''Perplexity-Research'', Resolve ''gemini-flash'']) \<and>
   (\<exists>call. snd (route example_settings example_environment
        \<lparr>req_messages = [\<lparr>role = ''user'', content = Text ''research the history of Rome''\<rparr>],
          req_temperature = None\<rparr>) =
      [Resolve ''Perplexity-Research'', Resolve ''gemini-flash'', Generate call] \<and>
      call_client call = GeminiClient \<and> call_model_id call = ''gemini-2.5-flash'')"
proof -
  let ?req = "\<lparr>req_messages = [\<lparr>role = ''user'', content = Text ''research the history of Rome''\<rparr>],
       req_temperature = None\<rparr>"
  let ?envB = "example_environment\<lparr>client_initializes := (\<lambda>c. c \<noteq> GeminiClient)\<rparr>"
  let ?d = "\<lparr>target_model = ''Perplexity-Research'', tier = ''research'', why = Research\<rparr>"
  let ?fb = "\<lparr>res_client = GeminiClient, res_model_id = ''gemini-2.5-flash'',
         res_model_type = ''chat'', res_api_parameters = [],
         res_system_prompt = ''You are a helpful AI assistant.''\<rparr>"
  have ne: "req_messages ?req \<noteq> []"
    by simp
  have nv: "\<not> should_use_vision_model (req_messages ?req)"
    by code_simp
  have selB: "select_target example_settings ?envB (req_messages ?req) = (Inr ?d, [])"
    by code_simp
  have missB: "get_llm_client_and_model_details example_settings ?envB (target_model ?d) = Inr None"
    by code_simp
  have fbB: "get_llm_client_and_model_details example_settings ?envB
      (fallback_model example_settings) = Inr None"
    by code_simp
  from fallback_resolution [OF ne selB missB surjective_pairing] fbB
  have B: "fst (route example_settings ?envB ?req) =
        Inl (HTTPException 500 (Detail ''No valid LLM client available'')) \<and>
      snd (route example_settings ?envB ?req) =
        [] @ [Resolve (target_model ?d), Resolve (fallback_model example_settings)]"
    by blast
  have selA: "select_target example_settings example_environment (req_messages ?req) =
      (Inr ?d, [])"
    by code_simp
  have missA: "get_llm_client_and_model_details example_settings example_environment
      (target_model ?d) = Inr None"
    by code_simp
  have fbA: "get_llm_client_and_model_details example_settings example_environment
      (fallback_model example_settings) = Inr (Some ?fb)"
    by code_simp
  from fallback_resolution [OF ne selA missA surjective_pairing, of ?fb] nv fbA
  obtain call where "snd (route example_settings example_environment ?req) =
      [] @ [Resolve (target_model ?d), Resolve (fallback_model example_settings), Generate call]"
    and "call_client call = res_client ?fb" and "call_model_id call = res_model_id ?fb"
    by blast
  then have A: "\<exists>call. snd (route example_settings example_environment ?req) =
      [Resolve ''Perplexity-Research'', Resolve ''gemini-flash'', Generate call] \<and>
      call_client call = GeminiClient \<and> call_model_id call = ''gemini-2.5-flash''"
    by (simp add: example_settings_def)
  from B have "route example_settings ?envB ?req =
   (Inl (HTTPException 500 (Detail ''No valid LLM client available'')),
    [Resolve ''Perplexity-Research'', Resolve ''gemini-flash''])"
    by (simp add: example_settings_def prod_eq_iff)
  with A show ?thesis
    by blast
qed

section \<open>Routing memory\<close>

text \<open>
  C1. A request that is routed with success, on a manager that holds no state: the
  escalation model answers, and the manager that \<open>route_and_process\<close> leaves holds no
  state, where step 9 asks for the state of the conversation with the model used and the
  tier. \<open>route_and_process\<close> calls neither \<open>get_or_create_state\<close> nor
  \<open>update_state_after_routing\<close>: its line 149 sets \<open>conversation_state = {}\<close> and says
  that a call of the conversation state manager will replace it.
\<close>

theorem routing_persists_nothing:
  "route_and_process example_settings example_environment
     \<lparr>req_messages = [\<lparr>role = ''user'', content = Text ''escalate''\<rparr>], req_temperature = None\<rparr>
     (conversation_state_manager 0) =
   (Inr (PDict
      [(''id'', PStr ''chatcmpl-0000''), (''object'', PStr ''chat.completion''),
       (''created'', PInt 0), (''model'', PStr ''gemini-pro''),
       (''choices'',
          PList [PDict
            [(''index'', PInt 0),
             (''message'', PDict [(''role'', PStr ''assistant''), (''content'', PStr ''Done.'')]),
             (''logprobs'', PNone), (''finish_reason'', PStr ''stop'')]]),
       (''usage'',
          PDict [(''prompt_tokens'', PInt 0), (''completion_tokens'', PInt 0),
                 (''total_tokens'', PInt 0)])]),
    [Resolve ''gemini-pro'',
     Generate
       \<lparr>call_client = GeminiClient, call_model_id = ''gemini-2.5-pro'',
         call_messages = [\<lparr>role = ''user'', content = Text ''escalate''\<rparr>],
         call_temperature = 7 / 10, call_api_parameters = [],
         call_system_prompt = ''You are a helpful AI assistant.''\<rparr>],
    conversation_state_manager 0) \<and>
   states (conversation_state_manager 0) = [] \<and>
   objects (conversation_state_manager 0) = []"
  by code_simp

section \<open>The classifier call\<close>

text \<open>
  Whatever \<open>classify_message\<close> returns is one of the four labels, and it raises exactly
  what the registry lookup of the classifier model raises.
\<close>

lemma and_then_Inr_iff:
  "and_then r f = Inr y \<longleftrightarrow> (\<exists>x. r = Inr x \<and> f x = Inr y)"
  by (cases r) (simp_all add: and_then_def)

lemma first_valid_in_member:
  "first_valid_in cats v = Inr c \<Longrightarrow> c \<in> set cats \<or> c = ''simple_no_research''"
  by (induction cats) (auto split: sum.splits if_splits)

lemma default_valid: "''simple_no_research'' \<in> set valid_categories"
  by (simp add: valid_categories_def)

lemma first_valid_in_valid:
  "first_valid_in valid_categories v = Inr c \<Longrightarrow> c \<in> set valid_categories"
  using first_valid_in_member [of valid_categories v c] default_valid by auto

lemma normalize_category_valid:
  "normalize_category env s = Inr c \<Longrightarrow> c \<in> set valid_categories"
  using default_valid
  by (auto simp: normalize_category_def Let_def
      split: if_splits option.splits dest: first_valid_in_valid)

lemma classify_message_label:
  "fst (classify_message cfg env n messages) = Inr c \<Longrightarrow> c \<in> set valid_categories"
  using default_valid
  by (auto simp: classify_message_def Let_def and_then_Inr_iff
      split: if_splits sum.splits option.splits dest: normalize_category_valid)

lemma classify_message_raises:
  "fst (classify_message cfg env n messages) = Inl e \<longleftrightarrow>
     messages \<noteq> [] \<and> get_llm_client_and_model_details cfg env (classifier_model cfg) = Inl e"
  by (auto simp: classify_message_def Let_def split: if_splits sum.splits option.splits)

text \<open>
  C6. With a classifier model whose provider is \<open>ollama\<close>, the registry lookup imports
  \<open>clients/ollama_client.py\<close>, which raises \<open>SyntaxError\<close>; the lookup stands before the
  \<open>try\<close> of \<open>classify_message\<close>, so the exception reaches the caller.
\<close>

theorem classify_message_ollama_raises:
  "classify_message (example_settings\<lparr>classifier_model := ''local''\<rparr>) example_environment 0
     [\<lparr>role = ''user'', content = Text ''hello''\<rparr>] =
   (Inl SyntaxError, [Resolve ''local''])"
  by code_simp

section \<open>Usage of a normalized reply\<close>

lemma format_standard_usage:
  assumes "format_openai_response cfg env r name = Inr out"
    and "\<not> (is_dict r \<and> dict_has r ''data'' \<and> dict_get r ''object'' PNone = PStr ''list'')"
    and "\<not> (is_dict r \<and> dict_has r ''error'')"
  shows "\<exists>c u. content_and_usage env r = Inr (c, u) \<and> py_item out ''usage'' = Inr u"
  using assms
  by (auto simp: format_openai_response_def and_then_Inr_iff py_item_def)

lemma content_and_usage_dict_choices:
  assumes "content_and_usage env r = Inr (c, u)" and "is_dict r" and "dict_has r ''choices''"
  shows "u = dict_get r ''usage'' zero_usage"
proof -
  from assms(2) have "\<not> py_hasattr r ''choices''"
    by (cases r) (simp_all add: is_dict_def py_hasattr_def)
  with assms show ?thesis
    by (auto simp: content_and_usage_def and_then_Inr_iff Let_def)
qed

lemma content_and_usage_dict_message:
  assumes "content_and_usage env r = Inr (c, u)" and "is_dict r" and "\<not> dict_has r ''choices''"
    and "dict_has r ''message''"
  shows "\<exists>total. py_add (float_add env) (dict_get r ''prompt_eval_count'' (PInt 0))
                     (dict_get r ''eval_count'' (PInt 0)) = Inr total \<and>
          u = PDict [(''prompt_tokens'', dict_get r ''prompt_eval_count'' (PInt 0)),
                     (''completion_tokens'', dict_get r ''eval_count'' (PInt 0)),
                     (''total_tokens'', total)]"
proof -
  from assms(2) have "\<not> py_hasattr r ''choices''"
    by (cases r) (simp_all add: is_dict_def py_hasattr_def)
  with assms show ?thesis
    by (auto simp: content_and_usage_def and_then_Inr_iff Let_def)
qed

lemma content_and_usage_object:
  assumes "content_and_usage env r = Inr (c, u)" and "py_hasattr r ''choices''"
    and "py_truthy (py_getattr_default r ''choices'' PNone)"
  shows "u = (if py_hasattr r ''usage'' then
                PDict [(''prompt_tokens'',
                          py_getattr_default (py_getattr_default r ''usage'' PNone)
                            ''prompt_tokens'' (PInt 0)),
                       (''completion_tokens'',
                          py_getattr_default (py_getattr_default r ''usage'' PNone)
                            ''completion_tokens'' (PInt 0)),
                       (''total_tokens'',
                          py_getattr_default (py_getattr_default r ''usage'' PNone)
                            ''total_tokens'' (PInt 0))]
              else zero_usage)"
  using assms
  by (auto simp: content_and_usage_def and_then_Inr_iff Let_def split: if_splits)

lemma py_add_ints: "py_add f (PInt p) (PInt c) = Inr (PInt (p + c))"
  by (simp add: py_add_def py_number_def)

lemma hasattr_not_dict: "py_hasattr r name \<Longrightarrow> \<not> is_dict r"
  by (cases r) (simp_all add: is_dict_def py_hasattr_def)

text \<open>
  C9, as the code has it. In the reply that \<open>_format_openai_response\<close> builds, the usage
  of an image batch is the fixed 0, 10, 10; that of a reply with a \<open>message\<close> entry has
  the two counts of the backend (0 when absent) and their sum as the total; that of a
  dictionary with \<open>choices\<close> is the backend's \<open>usage\<close> entry as it is, and three zeros
  when there is none; that of an object with \<open>choices\<close> holds the three attributes of
  its \<open>usage\<close>, each 0 when absent, and three zeros when the object has no \<open>usage\<close>.
\<close>

theorem usage_of_normalized_reply:
  assumes ok: "format_openai_response cfg env r name = Inr out"
  shows
    "(is_dict r \<and> dict_has r ''data'' \<and> dict_get r ''object'' PNone = PStr ''list'' \<longrightarrow>
        py_item out ''usage'' =
          Inr (PDict [(''prompt_tokens'', PInt 0), (''completion_tokens'', PInt 10),
                      (''total_tokens'', PInt 10)])) \<and>
     (is_dict r \<and> \<not> dict_has r ''data'' \<and> \<not> dict_has r ''error'' \<and>
      \<not> dict_has r ''choices'' \<and> dict_has r ''message'' \<and>
      dict_get r ''prompt_eval_count'' (PInt 0) = PInt p \<and>
      dict_get r ''eval_count'' (PInt 0) = PInt c \<longrightarrow>
        py_item out ''usage'' =
          Inr (PDict [(''prompt_tokens'', PInt p), (''completion_tokens'', PInt c),
                      (''total_tokens'', PInt (p + c))])) \<and>
     (is_dict r \<and> \<not> dict_has r ''data'' \<and> \<not> dict_has r ''error'' \<and>
      dict_has r ''choices'' \<longrightarrow>
        py_item out ''usage'' = Inr (dict_get r ''usage'' zero_usage)) \<and>
     (py_hasattr r ''choices'' \<and> py_truthy (py_getattr_default r ''choices'' PNone) \<longrightarrow>
        py_item out ''usage'' =
          Inr (if py_hasattr r ''usage'' then
                 PDict [(''prompt_tokens'',
                           py_getattr_default (py_getattr_default r ''usage'' PNone)
                             ''prompt_tokens'' (PInt 0)),
                        (''completion_tokens'',
                           py_getattr_default (py_getattr_default r ''usage'' PNone)
                             ''completion_tokens'' (PInt 0)),
                        (''total_tokens'',
                           py_getattr_default (py_getattr_default r ''usage'' PNone)
                             ''total_tokens'' (PInt 0))]
               else zero_usage))"
proof -
  have image: "py_item out ''usage'' =
          Inr (PDict [(''prompt_tokens'', PInt 0), (''completion_tokens'', PInt 10),
                      (''total_tokens'', PInt 10)])"
    if "is_dict r \<and> dict_has r ''data'' \<and> dict_get r ''object'' PNone = PStr ''list''"
    using ok that by (auto simp: format_openai_response_def and_then_Inr_iff py_item_def)
  have ollama: "py_item out ''usage'' =
          Inr (PDict [(''prompt_tokens'', PInt p), (''completion_tokens'', PInt c),
                      (''total_tokens'', PInt (p + c))])"
    if h: "is_dict r \<and> \<not> dict_has r ''data'' \<and> \<not> dict_has r ''error'' \<and>
      \<not> dict_has r ''choices'' \<and> dict_has r ''message'' \<and>
      dict_get r ''prompt_eval_count'' (PInt 0) = PInt p \<and>
      dict_get r ''eval_count'' (PInt 0) = PInt c"
  proof -
    from format_standard_usage [OF ok] h obtain c' u where
      cu: "content_and_usage env r = Inr (c', u)" and u: "py_item out ''usage'' = Inr u"
      by auto
    from content_and_usage_dict_message [OF cu] h show ?thesis
      by (auto simp: u py_add_ints)
  qed
  have chat: "py_item out ''usage'' = Inr (dict_get r ''usage'' zero_usage)"
    if h: "is_dict r \<and> \<not> dict_has r ''data'' \<and> \<not> dict_has r ''error'' \<and>
      dict_has r ''choices''"
  proof -
    from format_standard_usage [OF ok] h obtain c' u where
      cu: "content_and_usage env r = Inr (c', u)" and u: "py_item out ''usage'' = Inr u"
      by auto
    from content_and_usage_dict_choices [OF cu] h show ?thesis
      by (simp add: u)
  qed
  have obj: "py_item out ''usage'' =
          Inr (if py_hasattr r ''usage'' then
                 PDict [(''prompt_tokens'',
                           py_getattr_default (py_getattr_default r ''usage'' PNone)
                             ''prompt_tokens'' (PInt 0)),
                        (''completion_tokens'',
                           py_getattr_default (py_getattr_default r ''usage'' PNone)
                             ''completion_tokens'' (PInt 0)),
                        (''total_tokens'',
                           py_getattr_default (py_getattr_default r ''usage'' PNone)
                             ''total_tokens'' (PInt 0))]
               else zero_usage)"
    if h: "py_hasattr r ''choices'' \<and> py_truthy (py_getattr_default r ''choices'' PNone)"
  proof -
    from h have nd: "\<not> is_dict r"
      by (auto dest: hasattr_not_dict)
    from format_standard_usage [OF ok] nd obtain c' u where
      cu: "content_and_usage env r = Inr (c', u)" and u: "py_item out ''usage'' = Inr u"
      by auto
    from content_and_usage_object [OF cu] h show ?thesis
      by (simp only: u)
  qed
  from image ollama chat obj show ?thesis
    by blast
qed

text \<open>
  The claim fails on an image batch, which carries no usage and is given 10 completion
  tokens, and on a chat completion whose backend reports a total that is not the sum.
\<close>

theorem usage_not_always_consistent:
  "and_then
     (format_openai_response example_settings example_environment
        (PDict [(''object'', PStr ''list''), (''data'', PList [PStr ''image-bytes''])])
        ''gemini-image'')
     (\<lambda>out. py_item out ''usage'') =
   Inr (PDict [(''prompt_tokens'', PInt 0), (''completion_tokens'', PInt 10),
               (''total_tokens'', PInt 10)]) \<and>
   and_then
     (format_openai_response example_settings example_environment
        (PDict [(''choices'', PList [PDict [(''message'', PDict [(''content'', PStr ''Hi'')])]]),
                (''usage'', PDict [(''prompt_tokens'', PInt 5), (''completion_tokens'', PInt 7),
                                   (''total_tokens'', PInt 99)])])
        ''gpt-mini'')
     (\<lambda>out. py_item out ''usage'') =
   Inr (PDict [(''prompt_tokens'', PInt 5), (''completion_tokens'', PInt 7),
               (''total_tokens'', PInt 99)])"
  by code_simp

lemma and_then_Inr: "r = Inr x \<Longrightarrow> and_then r f = f x"
  by (simp add: and_then_def)

theorem usage_of_normalized_reply_witness:
  "and_then
     (format_openai_response example_settings example_environment
        (PDict [(''object'', PStr ''list''), (''data'', PList [PStr ''a'', PStr ''b''])])
        ''gemini-image'')
     (\<lambda>out. py_item out ''usage'') =
   Inr (PDict [(''prompt_tokens'', PInt 0), (''completion_tokens'', PInt 10),
               (''total_tokens'', PInt 10)]) \<and>
   and_then
     (format_openai_response example_settings example_environment
        (PDict [(''message'', PDict [(''content'', PStr ''Hi'')]),
                (''prompt_eval_count'', PInt 12), (''eval_count'', PInt 30)])
        ''local'')
     (\<lambda>out. py_item out ''usage'') =
   Inr (PDict [(''prompt_tokens'', PInt 12), (''completion_tokens'', PInt 30),
               (''total_tokens'', PInt 42)]) \<and>
   and_then
     (format_openai_response example_settings example_environment
        (PDict [(''choices'', PList [PDict [(''message'', PDict [(''content'', PStr ''Hi'')])]])])
        ''gemini-pro'')
     (\<lambda>out. py_item out ''usage'') =
   Inr zero_usage \<and>
   and_then
     (format_openai_response example_settings example_environment
        (PObj [(''choices'', PList [PObj [(''message'', PObj [(''content'', PStr ''Hi'')])]])])
        ''gpt-mini'')
     (\<lambda>out. py_item out ''usage'') =
   Inr zero_usage"
proof -
  let ?r1 = "PDict [(''object'', PStr ''list''), (''data'', PList [PStr ''a'', PStr ''b''])]"
  let ?r2 = "PDict [(''message'', PDict [(''content'', PStr ''Hi'')]),
                (''prompt_eval_count'', PInt 12), (''eval_count'', PInt 30)]"
  let ?r3 = "PDict [(''choices'', PList [PDict [(''message'', PDict [(''content'', PStr ''Hi'')])]])]"
  let ?r4 = "PObj [(''choices'', PList [PObj [(''message'', PObj [(''content'', PStr ''Hi'')])]])]"
  let ?f = "format_openai_response example_settings example_environment"
  have "\<not> isl (?f ?r1 ''gemini-image'')" "\<not> isl (?f ?r2 ''local'')"
    "\<not> isl (?f ?r3 ''gemini-pro'')" "\<not> isl (?f ?r4 ''gpt-mini'')"
    by code_simp+
  then obtain o1 o2 o3 o4 where
    o1: "?f ?r1 ''gemini-image'' = Inr o1" and o2: "?f ?r2 ''local'' = Inr o2" and
    o3: "?f ?r3 ''gemini-pro'' = Inr o3" and o4: "?f ?r4 ''gpt-mini'' = Inr o4"
    by (metis sum.collapse(2))
  have h1: "is_dict ?r1 \<and> dict_has ?r1 ''data'' \<and> dict_get ?r1 ''object'' PNone = PStr ''list''"
    by code_simp
  have h2: "is_dict ?r2 \<and> \<not> dict_has ?r2 ''data'' \<and> \<not> dict_has ?r2 ''error'' \<and>
      \<not> dict_has ?r2 ''choices'' \<and> dict_has ?r2 ''message'' \<and>
      dict_get ?r2 ''prompt_eval_count'' (PInt 0) = PInt 12 \<and>
      dict_get ?r2 ''eval_count'' (PInt 0) = PInt 30"
    by code_simp
  have h3: "is_dict ?r3 \<and> \<not> dict_has ?r3 ''data'' \<and> \<not> dict_has ?r3 ''error'' \<and>
      dict_has ?r3 ''choices''"
    by code_simp
  have u3: "dict_get ?r3 ''usage'' zero_usage = zero_usage"
    by code_simp
  have h4: "py_hasattr ?r4 ''choices'' \<and> py_truthy (py_getattr_default ?r4 ''choices'' PNone)"
    by code_simp
  have n4: "\<not> py_hasattr ?r4 ''usage''"
    by code_simp
  from usage_of_normalized_reply [OF o1] h1
  have "py_item o1 ''usage'' =
      Inr (PDict [(''prompt_tokens'', PInt 0), (''completion_tokens'', PInt 10),
                  (''total_tokens'', PInt 10)])"
    by blast
  moreover from usage_of_normalized_reply [OF o2, of 12 30] h2
  have "py_item o2 ''usage'' =
      Inr (PDict [(''prompt_tokens'', PInt 12), (''completion_tokens'', PInt 30),
                  (''total_tokens'', PInt (12 + 30))])"
    by blast
  moreover from usage_of_normalized_reply [OF o3] h3 u3
  have "py_item o3 ''usage'' = Inr zero_usage"
    by simp
  moreover from usage_of_normalized_reply [OF o4] h4 n4
  have "py_item o4 ''usage'' = Inr zero_usage"
    by simp
  ultimately show ?thesis
    by (simp add: and_then_Inr [OF o1] and_then_Inr [OF o2] and_then_Inr [OF o3]
        and_then_Inr [OF o4])
qed

end
